theory Spec2Isabelle
  imports Complex_Main
begin

section \<open>JavaScript numbers\<close>

text \<open>
  The payment code computes with JavaScript \<open>number\<close>s (IEEE 754 binary64). A number is
  modelled as a finite value or one of the three special values. A finite value is the
  real that the double denotes. The result of an arithmetic operation is the exact
  result rounded to the nearest double, ties to even, subnormal results included; a
  result of magnitude \<open>2^1024 - 2^970\<close> or more is an infinity. A decimal literal of the
  source denotes the nearest double: \<open>fl (1 / 100)\<close> is the literal \<open>0.01\<close>. The sign of
  zero is not modelled.
\<close>

datatype number = Fin real | PosInf | NegInf | NaN

definition MAX_VALUE :: real where
  "MAX_VALUE = 2 ^ 1024 - 2 ^ 971"

text \<open>
  \<open>find_exp y\<close> is the \<open>e\<close> with \<open>2^e \<le> y < 2^(e+1)\<close> for \<open>1 \<le> y < 2^2048\<close>, found bit by bit
  from the top, and 0 for \<open>y < 1\<close>.
\<close>

definition find_exp :: "real \<Rightarrow> nat" where
  "find_exp y =
     foldl (\<lambda>e s. if 2 ^ (e + s) \<le> y then e + s else e) 0
       [1024, 512, 256, 128, 64, 32, 16, 8, 4, 2, 1]"

definition pow2 :: "int \<Rightarrow> real" where
  "pow2 k = (if 0 \<le> k then 2 ^ nat k else 1 / 2 ^ nat (- k))"

text \<open>
  The distance between neighbouring doubles at \<open>x\<close>: \<open>2^(e-52)\<close> where \<open>2^e \<le> |x| < 2^(e+1)\<close>,
  and \<open>2^-1074\<close> below \<open>2^-1022\<close>.
\<close>

definition ulp :: "real \<Rightarrow> real" where
  "ulp x = pow2 (int (find_exp (\<bar>x\<bar> * 2 ^ 1022)) - 1074)"

text \<open>The nearest integer, a tie going to the even one.\<close>

definition rne :: "real \<Rightarrow> int" where
  "rne y =
     (let f = \<lfloor>y\<rfloor>; r = y - of_int f in
      if r < 1 / 2 then f
      else if 1 / 2 < r then f + 1
      else if even f then f else f + 1)"

text \<open>The nearest double, as a real.\<close>

definition rd :: "real \<Rightarrow> real" where
  "rd x = (let u = ulp x in of_int (rne (x / u)) * u)"

definition fl :: "real \<Rightarrow> number" where
  "fl x = (if 2 ^ 1024 - 2 ^ 970 \<le> x then PosInf
           else if x \<le> - (2 ^ 1024 - 2 ^ 970) then NegInf
           else Fin (rd x))"

fun js_times :: "number \<Rightarrow> number \<Rightarrow> number" where
  "js_times NaN y = NaN"
| "js_times x NaN = NaN"
| "js_times (Fin a) (Fin b) = fl (a * b)"
| "js_times (Fin a) PosInf = (if a = 0 then NaN else if 0 < a then PosInf else NegInf)"
| "js_times (Fin a) NegInf = (if a = 0 then NaN else if 0 < a then NegInf else PosInf)"
| "js_times PosInf (Fin b) = (if b = 0 then NaN else if 0 < b then PosInf else NegInf)"
| "js_times NegInf (Fin b) = (if b = 0 then NaN else if 0 < b then NegInf else PosInf)"
| "js_times PosInf PosInf = PosInf"
| "js_times PosInf NegInf = NegInf"
| "js_times NegInf PosInf = NegInf"
| "js_times NegInf NegInf = PosInf"

fun js_minus :: "number \<Rightarrow> number \<Rightarrow> number" where
  "js_minus NaN y = NaN"
| "js_minus x NaN = NaN"
| "js_minus (Fin a) (Fin b) = fl (a - b)"
| "js_minus (Fin a) PosInf = NegInf"
| "js_minus (Fin a) NegInf = PosInf"
| "js_minus PosInf (Fin b) = PosInf"
| "js_minus NegInf (Fin b) = NegInf"
| "js_minus PosInf PosInf = NaN"
| "js_minus PosInf NegInf = PosInf"
| "js_minus NegInf PosInf = NegInf"
| "js_minus NegInf NegInf = NaN"

text \<open>Division by a zero divisor takes the zero as \<open>+0\<close>.\<close>

fun js_divide :: "number \<Rightarrow> number \<Rightarrow> number" where
  "js_divide NaN y = NaN"
| "js_divide x NaN = NaN"
| "js_divide (Fin a) (Fin b) =
     (if b = 0 then (if a = 0 then NaN else if 0 < a then PosInf else NegInf)
      else fl (a / b))"
| "js_divide (Fin a) PosInf = Fin 0"
| "js_divide (Fin a) NegInf = Fin 0"
| "js_divide PosInf (Fin b) = (if 0 \<le> b then PosInf else NegInf)"
| "js_divide NegInf (Fin b) = (if 0 \<le> b then NegInf else PosInf)"
| "js_divide PosInf PosInf = NaN"
| "js_divide PosInf NegInf = NaN"
| "js_divide NegInf PosInf = NaN"
| "js_divide NegInf NegInf = NaN"

text \<open>
  \<open>a ** n\<close> for a finite base and a natural exponent, as in \<open>10 ** USDC_DECIMALS\<close>; the two
  powers of ten that the code takes are doubles, so that rounding leaves them exact.
\<close>

definition js_pow :: "real \<Rightarrow> nat \<Rightarrow> number" where
  "js_pow a n = fl (a ^ n)"

fun js_lt :: "number \<Rightarrow> number \<Rightarrow> bool" where
  "js_lt NaN y = False"
| "js_lt x NaN = False"
| "js_lt (Fin a) (Fin b) = (a < b)"
| "js_lt (Fin a) PosInf = True"
| "js_lt (Fin a) NegInf = False"
| "js_lt PosInf y = False"
| "js_lt NegInf (Fin b) = True"
| "js_lt NegInf PosInf = True"
| "js_lt NegInf NegInf = False"

text \<open>Strict equality \<open>===\<close> on numbers: \<open>NaN\<close> equals nothing.\<close>

fun js_eq :: "number \<Rightarrow> number \<Rightarrow> bool" where
  "js_eq NaN y = False"
| "js_eq x NaN = False"
| "js_eq x y = (x = y)"

definition js_le :: "number \<Rightarrow> number \<Rightarrow> bool" where
  "js_le x y = (js_lt x y \<or> js_eq x y)"

definition js_gt :: "number \<Rightarrow> number \<Rightarrow> bool" where
  "js_gt x y = js_lt y x"

text \<open>A number is falsy in \<open>||\<close> when it is zero or \<open>NaN\<close>.\<close>

definition truthy :: "number \<Rightarrow> bool" where
  "truthy x = (x \<noteq> Fin 0 \<and> x \<noteq> NaN)"

fun Math_ceil :: "number \<Rightarrow> number" where
  "Math_ceil (Fin a) = Fin (of_int \<lceil>a\<rceil>)"
| "Math_ceil x = x"

fun Math_floor :: "number \<Rightarrow> number" where
  "Math_floor (Fin a) = Fin (of_int \<lfloor>a\<rfloor>)"
| "Math_floor x = x"

text \<open>\<open>Math.round\<close> rounds to the nearest integer, a half towards \<open>+\<infinity>\<close>.\<close>

fun Math_round :: "number \<Rightarrow> number" where
  "Math_round (Fin a) = Fin (of_int \<lfloor>a + 1 / 2\<rfloor>)"
| "Math_round x = x"

datatype error = RangeError | KsvcApiError nat | OtherError string

text \<open>\<open>BigInt(x)\<close> throws a \<open>RangeError\<close> unless \<open>x\<close> is an integral finite number.\<close>

fun BigInt :: "number \<Rightarrow> error + int" where
  "BigInt (Fin a) = (if a = of_int \<lfloor>a\<rfloor> then Inr \<lfloor>a\<rfloor> else Inl RangeError)"
| "BigInt x = Inl RangeError"

fun nat_toString :: "nat \<Rightarrow> string" where
  "nat_toString n =
     (if n < 10 then [''0123456789'' ! n]
      else nat_toString (n div 10) @ [''0123456789'' ! (n mod 10)])"

declare nat_toString.simps [simp del]

definition BigInt_toString :: "int \<Rightarrow> string" where
  "BigInt_toString i =
     (if i < 0 then CHR ''-'' # nat_toString (nat (- i)) else nat_toString (nat i))"

section \<open>Token configuration and the pricing registry\<close>

text \<open>
  \<open>config/tokens.ts\<close>: the addresses and the network come from the environment (with
  defaults) and are a parameter here; the decimals are constants.
\<close>

record tokens =
  KIRK_TOKEN_ADDRESS :: string
  USDC_ADDRESS :: string
  KIRK_TREASURY_ADDRESS :: string
  NETWORK :: string

definition KIRK_TOKEN_DECIMALS :: nat where
  "KIRK_TOKEN_DECIMALS = 18"

definition USDC_DECIMALS :: nat where
  "USDC_DECIMALS = 6"

datatype tier = free | light | standard | deep | signals

record EndpointPrice =
  usdcPrice :: number
  tier :: tier

text \<open>\<open>config/pricing.ts\<close>: the properties of the object literal \<open>ENDPOINT_PRICES\<close>.\<close>

definition ENDPOINT_PRICES_entries :: "(string \<times> EndpointPrice) list" where
  "ENDPOINT_PRICES_entries =
    [(''health'', \<lparr>usdcPrice = Fin 0, tier = free\<rparr>),
     (''models'', \<lparr>usdcPrice = Fin 0, tier = free\<rparr>),
     (''info'', \<lparr>usdcPrice = Fin 0, tier = free\<rparr>),
     (''summary'', \<lparr>usdcPrice = fl (1 / 100), tier = light\<rparr>),
     (''model-info'', \<lparr>usdcPrice = fl (1 / 100), tier = light\<rparr>),
     (''leaderboard'', \<lparr>usdcPrice = fl (1 / 100), tier = light\<rparr>),
     (''performance'', \<lparr>usdcPrice = fl (5 / 100), tier = standard\<rparr>),
     (''holdings'', \<lparr>usdcPrice = fl (5 / 100), tier = standard\<rparr>),
     (''holdings-top'', \<lparr>usdcPrice = fl (5 / 100), tier = standard\<rparr>),
     (''holding'', \<lparr>usdcPrice = fl (5 / 100), tier = standard\<rparr>),
     (''stats'', \<lparr>usdcPrice = fl (5 / 100), tier = standard\<rparr>),
     (''history-monthly'', \<lparr>usdcPrice = fl (10 / 100), tier = deep\<rparr>),
     (''tradebook'', \<lparr>usdcPrice = fl (10 / 100), tier = deep\<rparr>),
     (''positions'', \<lparr>usdcPrice = fl (10 / 100), tier = deep\<rparr>),
     (''compare'', \<lparr>usdcPrice = fl (10 / 100), tier = deep\<rparr>),
     (''trades-recent'', \<lparr>usdcPrice = fl (10 / 100), tier = signals\<rparr>),
     (''trades-filled'', \<lparr>usdcPrice = fl (10 / 100), tier = signals\<rparr>),
     (''trades-pending'', \<lparr>usdcPrice = fl (10 / 100), tier = signals\<rparr>)]"

definition ENDPOINT_PRICES :: "string \<rightharpoonup> EndpointPrice" where
  "ENDPOINT_PRICES = map_of ENDPOINT_PRICES_entries"

text \<open>
  \<open>ENDPOINT_PRICES\<close> is a plain object, so that \<open>ENDPOINT_PRICES[key]\<close> also finds the
  properties it inherits from \<open>Object.prototype\<close>. What is found under such a name is a
  function (under \<open>__proto__\<close> the prototype object): it is truthy and has no \<open>usdcPrice\<close>.
\<close>

definition Object_prototype_names :: "string list" where
  "Object_prototype_names =
    [''constructor'', ''hasOwnProperty'', ''isPrototypeOf'', ''propertyIsEnumerable'',
     ''toLocaleString'', ''toString'', ''valueOf'', ''__proto__'',
     ''__defineGetter__'', ''__defineSetter__'', ''__lookupGetter__'', ''__lookupSetter__'']"

datatype 'a property = Undefined | Own 'a | Inherited

definition ENDPOINT_PRICES_get :: "string \<Rightarrow> EndpointPrice property" where
  "ENDPOINT_PRICES_get key =
     (case ENDPOINT_PRICES key of
        Some ep \<Rightarrow> Own ep
      | None \<Rightarrow> if key \<in> set Object_prototype_names then Inherited else Undefined)"

section \<open>The quote calculation (\<open>lib/payments.ts\<close>)\<close>

definition KIRK_DISCOUNT :: number where
  "KIRK_DISCOUNT = fl (3 / 10)"

definition calculateKirkAmount :: "number \<Rightarrow> number \<Rightarrow> number" where
  "calculateKirkAmount usdc kirkPriceUsd =
     (if js_le kirkPriceUsd (Fin 0) then Fin 0
      else let discountedUsd = js_times usdc (js_minus (Fin 1) KIRK_DISCOUNT)
           in Math_ceil (js_divide discountedUsd kirkPriceUsd))"

definition kirkToRaw :: "number \<Rightarrow> error + string" where
  "kirkToRaw kirkAmount =
     (case BigInt (Math_floor (js_times kirkAmount (js_pow 10 KIRK_TOKEN_DECIMALS))) of
        Inl e \<Rightarrow> Inl e
      | Inr i \<Rightarrow> Inr (BigInt_toString i))"

definition usdcToRaw :: "number \<Rightarrow> error + string" where
  "usdcToRaw usdcAmount =
     (case BigInt (Math_round (js_times usdcAmount (js_pow 10 USDC_DECIMALS))) of
        Inl e \<Rightarrow> Inl e
      | Inr i \<Rightarrow> Inr (BigInt_toString i))"

datatype scheme = exact | upto

record asset_extra =
  name :: string
  symbol :: string
  decimals :: nat

record price =
  asset :: string
  amount :: string
  extra :: asset_extra

record requirement =
  scheme :: scheme
  network :: string
  payTo :: string
  price :: price

text \<open>
  \<open>dualTokenAccepts\<close>. A key under which nothing is found and a zero price both give the
  empty list. For an inherited name \<open>ep.usdcPrice\<close> is \<open>undefined\<close>, which is not \<open>=== 0\<close> and
  is \<open>NaN\<close> in arithmetic. The two amounts are computed while the array literal is
  built, the USDC one first, so a throw of \<open>usdcToRaw\<close> comes before one of \<open>kirkToRaw\<close>.
\<close>

definition dualTokenAccepts :: "tokens \<Rightarrow> string \<Rightarrow> number \<Rightarrow> error + requirement list" where
  "dualTokenAccepts cfg endpointKey kirkPriceUsd =
     (case ENDPOINT_PRICES_get endpointKey of
        Undefined \<Rightarrow> Inr []
      | ep \<Rightarrow>
          let usdc = (case ep of Own e \<Rightarrow> usdcPrice e | _ \<Rightarrow> NaN) in
          if js_eq usdc (Fin 0) then Inr []
          else
            let kirkAmount = calculateKirkAmount usdc kirkPriceUsd in
            (case usdcToRaw usdc of
               Inl e \<Rightarrow> Inl e
             | Inr usdcRaw \<Rightarrow>
                 (case kirkToRaw kirkAmount of
                    Inl e \<Rightarrow> Inl e
                  | Inr kirkRaw \<Rightarrow>
                      Inr [\<lparr>scheme = exact, network = NETWORK cfg,
                            payTo = KIRK_TREASURY_ADDRESS cfg,
                            price = \<lparr>asset = USDC_ADDRESS cfg, amount = usdcRaw,
                                     extra = \<lparr>name = ''USD Coin'', symbol = ''USDC'',
                                              decimals = USDC_DECIMALS\<rparr>\<rparr>\<rparr>,
                           \<lparr>scheme = upto, network = NETWORK cfg,
                            payTo = KIRK_TREASURY_ADDRESS cfg,
                            price = \<lparr>asset = KIRK_TOKEN_ADDRESS cfg, amount = kirkRaw,
                                     extra = \<lparr>name = ''Kirk'', symbol = ''KIRK'',
                                              decimals = KIRK_TOKEN_DECIMALS\<rparr>\<rparr>\<rparr>])))"

section \<open>The price feed (\<open>lib/payments.ts\<close>)\<close>

type_synonym time = int

record PriceSnapshot =
  priceUsd :: number
  fetchedAt :: time

definition PRICE_CACHE_TTL :: int where
  "PRICE_CACHE_TTL = 5 * 60 * 1000"

text \<open>
  What the \<open>try\<close> block of \<open>fetchKirkPrice\<close> gets from DexScreener: \<open>FeedFailed\<close> stands
  for anything thrown inside the block (a rejected \<open>fetch\<close>, a body that is not JSON, a
  \<open>null\<close> body), \<open>FeedPrice x\<close> for a response whose
  \<open>parseFloat(data.pair?.priceUsd || "0")\<close> is \<open>x\<close>.
\<close>

datatype feed_response = FeedFailed | FeedPrice number

text \<open>Line 66: \<open>kirkPriceCache?.priceUsd || 0.0000003\<close>.\<close>

definition fallbackPrice :: "PriceSnapshot option \<Rightarrow> number" where
  "fallbackPrice kirkPriceCache =
     (case kirkPriceCache of
        None \<Rightarrow> fl (3 / 10 ^ 7)
      | Some s \<Rightarrow> if truthy (priceUsd s) then priceUsd s else fl (3 / 10 ^ 7))"

text \<open>
  \<open>fetchKirkPrice\<close> at time \<open>now\<close>, with the module variable \<open>kirkPriceCache\<close> passed in and
  returned. The feed is asked only when the snapshot is missing or stale (\<open>refetch\<close> is
  lines 52 to 66). The function has no error result: the one place that can throw is
  inside \<open>try\<close>, and the \<open>catch\<close> only logs.
\<close>

definition fetchKirkPrice ::
  "time \<Rightarrow> feed_response \<Rightarrow> PriceSnapshot option \<Rightarrow> number \<times> PriceSnapshot option" where
  "fetchKirkPrice now feed kirkPriceCache =
     (let refetch =
        (case feed of
           FeedFailed \<Rightarrow> (fallbackPrice kirkPriceCache, kirkPriceCache)
         | FeedPrice p \<Rightarrow>
             if js_gt p (Fin 0) then (p, Some \<lparr>priceUsd = p, fetchedAt = now\<rparr>)
             else (fallbackPrice kirkPriceCache, kirkPriceCache))
      in case kirkPriceCache of
           None \<Rightarrow> refetch
         | Some s \<Rightarrow>
             if now - fetchedAt s < PRICE_CACHE_TTL then (priceUsd s, kirkPriceCache)
             else refetch)"

text \<open>
  The module variable starts as \<open>null\<close> and only \<open>fetchKirkPrice\<close> writes it. This is its
  value after a series of calls, each given by its time and the feed's answer.
\<close>

definition kirkPriceCache_after :: "(time \<times> feed_response) list \<Rightarrow> PriceSnapshot option" where
  "kirkPriceCache_after calls =
     foldl (\<lambda>c call. snd (fetchKirkPrice (fst call) (snd call) c)) None calls"

text \<open>The snapshot, when there is one, holds a price above zero.\<close>

definition snapshot_positive :: "PriceSnapshot option \<Rightarrow> bool" where
  "snapshot_positive c = (case c of None \<Rightarrow> True | Some s \<Rightarrow> js_gt (priceUsd s) (Fin 0))"

text \<open>The snapshot, when there is one, does not hold \<open>Infinity\<close>.\<close>

definition snapshot_finite :: "PriceSnapshot option \<Rightarrow> bool" where
  "snapshot_finite c = (case c of None \<Rightarrow> True | Some s \<Rightarrow> priceUsd s \<noteq> PosInf)"

section \<open>The routes configuration and the middleware factory\<close>

record route_config =
  accepts :: "requirement list"
  description :: string
  mimeType :: string

text \<open>The routes of \<open>buildRoutesConfig\<close>: route pattern, endpoint key, description.\<close>

definition route_table :: "(string \<times> string \<times> string) list" where
  "route_table =
    [(''GET /models/[model]/summary'', ''summary'', ''Quick model snapshot''),
     (''GET /models/[model]/info'', ''model-info'', ''Model metadata''),
     (''GET /leaderboard'', ''leaderboard'', ''Model performance leaderboard''),
     (''GET /models/[model]/performance'', ''performance'', ''Full performance metrics''),
     (''GET /models/[model]/holdings'', ''holdings'', ''All holdings with returns''),
     (''GET /models/[model]/holdings/top'', ''holdings-top'', ''Top N holdings by return''),
     (''GET /models/[model]/holdings/[ticker]'', ''holding'',
        ''Single holding detail + daily history''),
     (''GET /models/[model]/stats'', ''stats'', ''Best/worst performers, averages''),
     (''GET /models/[model]/history/monthly'', ''history-monthly'',
        ''Monthly returns + win/lose stats''),
     (''GET /models/[model]/tradebook'', ''tradebook'', ''Full position ledger''),
     (''GET /models/[model]/positions'', ''positions'', ''Open positions only''),
     (''GET /compare'', ''compare'', ''Multi-model comparison''),
     (''GET /models/[model]/trades/recent'', ''trades-recent'', ''Recent filled orders''),
     (''GET /models/[model]/trades/filled'', ''trades-filled'', ''All filled orders''),
     (''GET /models/[model]/trades/pending'', ''trades-pending'', ''Pending orders'')]"

fun buildRoutes ::
  "tokens \<Rightarrow> number \<Rightarrow> (string \<times> string \<times> string) list
     \<Rightarrow> error + (string \<times> route_config) list" where
  "buildRoutes cfg kirkPriceUsd [] = Inr []"
| "buildRoutes cfg kirkPriceUsd ((route, endpointKey, descr) # rest) =
     (case dualTokenAccepts cfg endpointKey kirkPriceUsd of
        Inl e \<Rightarrow> Inl e
      | Inr acc \<Rightarrow>
          (case buildRoutes cfg kirkPriceUsd rest of
             Inl e \<Rightarrow> Inl e
           | Inr routes \<Rightarrow>
               Inr ((route, \<lparr>accepts = acc, description = descr,
                             mimeType = ''application/json''\<rparr>) # routes)))"

definition buildRoutesConfig :: "tokens \<Rightarrow> number \<Rightarrow> error + (string \<times> route_config) list" where
  "buildRoutesConfig cfg kirkPriceUsd = buildRoutes cfg kirkPriceUsd route_table"

text \<open>
  The running server, as far as quoting goes: the module variable \<open>kirkPriceCache\<close> and
  the \<open>routes\<close> object that \<open>createPaymentMiddleware\<close> handed to the facilitator's
  middleware. The facilitator library is outside the repository; from it only this is
  used: the middleware keeps the \<open>routes\<close> object it was created with and answers an
  unpaid request with the \<open>accepts\<close> list of the matching route.
\<close>

record server =
  kirkPriceCache :: "PriceSnapshot option"
  routes :: "(string \<times> route_config) list"

text \<open>
  \<open>createPaymentMiddleware\<close>, called once from \<open>index.ts\<close>: the initial price is fetched,
  the routes are built from it, and the refresh timer is started. The result is the
  \<open>routes\<close> object given to the facilitator's middleware, or what was thrown while it was
  built, together with the module variable \<open>kirkPriceCache\<close>.
\<close>

definition createPaymentMiddleware ::
  "tokens \<Rightarrow> time \<Rightarrow> feed_response \<Rightarrow> PriceSnapshot option
     \<Rightarrow> (error + (string \<times> route_config) list) \<times> PriceSnapshot option" where
  "createPaymentMiddleware cfg now feed cache0 =
     (let (kirkPriceUsd, cache1) = fetchKirkPrice now feed cache0 in
      (buildRoutesConfig cfg kirkPriceUsd, cache1))"

text \<open>One firing of the \<open>setInterval\<close> callback: \<open>fetchKirkPrice\<close> and a log line.\<close>

definition refresh :: "server \<Rightarrow> time \<times> feed_response \<Rightarrow> server" where
  "refresh s tick =
     s\<lparr>kirkPriceCache := snd (fetchKirkPrice (fst tick) (snd tick) (kirkPriceCache s))\<rparr>"

definition quote :: "server \<Rightarrow> string \<Rightarrow> requirement list option" where
  "quote s route = map_option accepts (map_of (routes s) route)"

section \<open>The data cache (\<open>lib/ksvc-client.ts\<close>)\<close>

text \<open>
  The world outside the process is threaded through the data client: \<open>clock\<close> is what
  \<open>Date.now()\<close> returns, and a fetcher is a function that changes the world and settles
  to an error or a value.
\<close>

record world =
  clock :: time

type_synonym ('a, 'w) fetcher = "'w \<Rightarrow> (error + 'a) \<times> 'w"

record 'a cache_entry =
  data :: 'a
  expires :: time

type_synonym 'a cache = "string \<rightharpoonup> 'a cache_entry"

definition CACHE_TTL :: int where
  "CACHE_TTL = 60 * 60 * 1000"

text \<open>
  \<open>cachedFetch\<close> runs in two parts. Up to the \<open>await\<close> (lines 98 to 103) it looks the key
  up and, without a live entry, calls the fetcher. After the \<open>await\<close> (lines 103 to 105)
  it stores what the fetcher settled to, or throws what it rejected with.
\<close>

definition cachedFetch_lookup :: "time \<Rightarrow> string \<Rightarrow> 'a cache \<Rightarrow> 'a option" where
  "cachedFetch_lookup now key c =
     (case c key of
        None \<Rightarrow> None
      | Some cached \<Rightarrow> if now < expires cached then Some (data cached) else None)"

definition cachedFetch_resume ::
  "time \<Rightarrow> string \<Rightarrow> error + 'a \<Rightarrow> 'a cache \<Rightarrow> (error + 'a) \<times> 'a cache" where
  "cachedFetch_resume now key settled c =
     (case settled of
        Inl e \<Rightarrow> (Inl e, c)
      | Inr d \<Rightarrow> (Inr d, c(key \<mapsto> \<lparr>data = d, expires = now + CACHE_TTL\<rparr>)))"

text \<open>A call of \<open>cachedFetch\<close> that runs alone, with no other task in between.\<close>

definition cachedFetch ::
  "string \<Rightarrow> ('a, 'm world_scheme) fetcher \<Rightarrow> 'a cache \<times> 'm world_scheme
     \<Rightarrow> (error + 'a) \<times> 'a cache \<times> 'm world_scheme" where
  "cachedFetch key fetcher st =
     (let (c, w) = st in
      case cachedFetch_lookup (clock w) key c of
        Some d \<Rightarrow> (Inr d, c, w)
      | None \<Rightarrow>
          (let (settled, w') = fetcher w;
               (r, c') = cachedFetch_resume (clock w') key settled c
           in (r, c', w')))"

text \<open>
  Several callers of \<open>cachedFetch\<close> for one key on the event loop. \<open>Call t\<close>: a caller
  enters at time \<open>t\<close> and runs to its \<open>await\<close>. \<open>Settle t x\<close>: at time \<open>t\<close> the fetch of one
  waiting caller settles to \<open>x\<close> and that caller runs to its end; with no caller waiting
  it changes nothing. The state counts the calls of the fetcher and the callers still
  waiting, and lists what the callers got.
\<close>

datatype 'a event = Call time | Settle time "error + 'a"

record 'a flights =
  store :: "'a cache"
  fetcherCalls :: nat
  waiting :: nat
  returned :: "(error + 'a) list"

fun step :: "string \<Rightarrow> 'a flights \<Rightarrow> 'a event \<Rightarrow> 'a flights" where
  "step key s (Call t) =
     (case cachedFetch_lookup t key (store s) of
        Some d \<Rightarrow> s\<lparr>returned := returned s @ [Inr d]\<rparr>
      | None \<Rightarrow> s\<lparr>fetcherCalls := fetcherCalls s + 1, waiting := waiting s + 1\<rparr>)"
| "step key s (Settle t x) =
     (if waiting s = 0 then s
      else let (r, c') = cachedFetch_resume t key x (store s)
           in s\<lparr>store := c', waiting := waiting s - 1, returned := returned s @ [r]\<rparr>)"

definition run :: "string \<Rightarrow> 'a flights \<Rightarrow> 'a event list \<Rightarrow> 'a flights" where
  "run key s evs = foldl (step key) s evs"

section \<open>The recent-trades view (\<open>lib/ksvc-client.ts\<close>)\<close>

record KsvcFilledOrder =
  ticker :: string
  action :: string
  quantity :: number
  price :: number
  date :: string
  comment :: "string option"
  fee :: "number option"

text \<open>
  Of \<open>KsvcModelData\<close> only the two fields that \<open>getRecentTrades\<close> reads are modelled. Both
  may be missing in what the upstream sends.
\<close>

record KsvcModelData =
  filledOrders :: "KsvcFilledOrder list option"
  last_date :: "string option"

record response =
  ok :: bool
  status :: nat
  json :: "error + KsvcModelData"

text \<open>
  \<open>fetchModelData\<close>; \<open>base\<close> is \<open>KSVC_API_BASE\<close> and \<open>fetch\<close> the global \<open>fetch\<close>, which
  rejects or gives a response.
\<close>

definition fetchModelData ::
  "string \<Rightarrow> (string \<Rightarrow> (response, 'm world_scheme) fetcher) \<Rightarrow> string
     \<Rightarrow> KsvcModelData cache \<times> 'm world_scheme
     \<Rightarrow> (error + KsvcModelData) \<times> KsvcModelData cache \<times> 'm world_scheme" where
  "fetchModelData base fetch model =
     cachedFetch (''model:'' @ model)
       (\<lambda>w. case fetch (base @ ''/'' @ model) w of
               (Inl e, w') \<Rightarrow> (Inl e, w')
             | (Inr resp, w') \<Rightarrow>
                 if \<not> ok resp then (Inl (KsvcApiError (status resp)), w')
                 else (json resp, w'))"

record RecentTrades =
  model :: string
  recentTrades :: "KsvcFilledOrder list"
  count :: nat
  last_date :: "string option"
  timestamp :: time

text \<open>
  \<open>getRecentTrades\<close>. \<open>x || []\<close> replaces a missing array, \<open>x || null\<close> a missing or empty
  string; the timestamp is the clock's reading, not its ISO text.
\<close>

definition getRecentTrades ::
  "string \<Rightarrow> (string \<Rightarrow> (response, 'm world_scheme) fetcher) \<Rightarrow> string
     \<Rightarrow> KsvcModelData cache \<times> 'm world_scheme
     \<Rightarrow> (error + RecentTrades) \<times> KsvcModelData cache \<times> 'm world_scheme" where
  "getRecentTrades base fetch m st =
     (case fetchModelData base fetch m st of
        (Inl e, c', w') \<Rightarrow> (Inl e, c', w')
      | (Inr d, c', w') \<Rightarrow>
          (let filled = (case filledOrders d of None \<Rightarrow> [] | Some os \<Rightarrow> os) in
           (Inr \<lparr>model = m,
                 recentTrades = take 20 filled,
                 count = min 20 (length filled),
                 last_date = (case KsvcModelData.last_date d of
                                None \<Rightarrow> None
                              | Some s \<Rightarrow> if s = [] then None else Some s),
                 timestamp = clock w'\<rparr>, c', w')))"

section \<open>Sample data for the instances below\<close>

text \<open>The token configuration when the environment sets nothing.\<close>

definition default_tokens :: tokens where
  "default_tokens =
     \<lparr>KIRK_TOKEN_ADDRESS = ''0x73b83F8553480e8A8bb56B53618d5e70C8051e37'',
      USDC_ADDRESS = ''0x833589fCD6eDb6E08f4c7C32D4f71b54bdA02913'',
      KIRK_TREASURY_ADDRESS = ''0x54376e042acd7cf3bea1a40aff9c33b47e7ec5de'',
      NETWORK = ''eip155:8453''\<rparr>"

text \<open>A server started at time 0 with the feed quoting \<open>"0.004"\<close>.\<close>

definition started :: "(error + (string \<times> route_config) list) \<times> PriceSnapshot option" where
  "started = createPaymentMiddleware default_tokens 0 (FeedPrice (fl (4 / 1000))) None"

definition started_server :: server where
  "started_server = \<lparr>kirkPriceCache = snd started, routes = projr (fst started)\<rparr>"

definition an_order :: KsvcFilledOrder where
  "an_order = \<lparr>ticker = ''AAPL'', action = ''BUY'', quantity = Fin 10, price = Fin 190,
     date = ''2026-01-02'', comment = None, fee = None\<rparr>"

section \<open>Facts about the number model\<close>

lemmas eval_fl = fl_def rd_def rne_def ulp_def pow2_def find_exp_def

lemma MAX_VALUE_pos: "0 < MAX_VALUE"
  by (simp add: MAX_VALUE_def)

lemma MAX_VALUE_large: "1 \<le> MAX_VALUE"
  by (simp add: MAX_VALUE_def)

lemma MAX_VALUE_below_threshold: "MAX_VALUE < 2 ^ 1024 - 2 ^ 970"
  by (simp add: MAX_VALUE_def)

lemma find_exp_step:
  "e = 0 \<or> 2 ^ e \<le> y \<Longrightarrow>
     foldl (\<lambda>e s. if 2 ^ (e + s) \<le> y then e + s else e) e ss = 0 \<or>
     2 ^ foldl (\<lambda>e s. if 2 ^ (e + s) \<le> y then e + s else e) e ss \<le> (y::real)"
  by (induction ss arbitrary: e) auto

lemma find_exp_below: "find_exp y = 0 \<or> 2 ^ find_exp y \<le> y"
  unfolding find_exp_def by (rule find_exp_step) simp

lemma pow2_pos: "0 < pow2 k"
  by (simp add: pow2_def)

lemma pow2_nat: "pow2 (int e - 1074) = 2 ^ e / 2 ^ 1074"
proof (cases "1074 \<le> e")
  case True
  then have "pow2 (int e - 1074) = 2 ^ (e - 1074)"
    by (simp add: pow2_def nat_diff_distrib')
  also have "\<dots> = 2 ^ e / (2 ^ 1074 :: real)"
    using True by (simp add: power_diff)
  finally show ?thesis .
next
  case False
  then have "pow2 (int e - 1074) = 1 / 2 ^ (1074 - e)"
    by (simp add: pow2_def nat_diff_distrib')
  also have "\<dots> = 2 ^ e / (2 ^ 1074 :: real)"
    using False by (simp add: power_diff field_simps)
  finally show ?thesis .
qed

lemma ulp_pos: "0 < ulp x"
  by (simp add: ulp_def pow2_pos)

lemma ulp_bound: "ulp x = 1 / 2 ^ 1074 \<or> ulp x \<le> \<bar>x\<bar> / 2 ^ 52"
proof -
  let ?y = "\<bar>x\<bar> * 2 ^ 1022"
  from find_exp_below [of ?y] show ?thesis
  proof
    assume "find_exp ?y = 0"
    then show ?thesis by (simp add: ulp_def pow2_def)
  next
    assume "2 ^ find_exp ?y \<le> ?y"
    then have "2 ^ find_exp ?y / 2 ^ 1074 \<le> ?y / (2 ^ 1074 :: real)"
      by (simp add: divide_right_mono)
    also have "?y / (2 ^ 1074 :: real) = \<bar>x\<bar> / 2 ^ 52" by simp
    finally show ?thesis by (simp add: ulp_def pow2_nat)
  qed
qed

lemma ulp_normal:
  assumes "1 / 2 ^ 1022 \<le> \<bar>x\<bar>"
  shows "ulp x \<le> \<bar>x\<bar> / 2 ^ 52"
proof -
  have "(1 / 2 ^ 1074 :: real) = (1 / 2 ^ 1022) / 2 ^ 52" by simp
  also have "\<dots> \<le> \<bar>x\<bar> / 2 ^ 52" using assms by (rule divide_right_mono) simp
  finally show ?thesis using ulp_bound [of x] by auto
qed

lemma rne_close: "\<bar>of_int (rne y) - y\<bar> \<le> (1 / 2 :: real)"
  unfolding rne_def Let_def by (auto simp: abs_le_iff)

lemma rne_nonneg: "0 \<le> y \<Longrightarrow> 0 \<le> rne y"
  unfolding rne_def Let_def by auto

lemma rd_close: "\<bar>rd x - x\<bar> \<le> ulp x / 2"
proof -
  have u: "0 < ulp x" by (rule ulp_pos)
  have "rd x - x = (of_int (rne (x / ulp x)) - x / ulp x) * ulp x"
    using u by (simp add: rd_def Let_def field_simps)
  then have "\<bar>rd x - x\<bar> = \<bar>of_int (rne (x / ulp x)) - x / ulp x\<bar> * ulp x"
    using u by (simp add: abs_mult)
  also have "\<dots> \<le> 1 / 2 * ulp x"
    using rne_close [of "x / ulp x"] u by (intro mult_right_mono) simp_all
  finally show ?thesis by simp
qed

lemma rd_nonneg: "0 \<le> x \<Longrightarrow> 0 \<le> rd x"
  using ulp_pos [of x] by (simp add: rd_def Let_def rne_nonneg)

lemma fl_finite: "\<bar>x\<bar> \<le> MAX_VALUE \<Longrightarrow> fl x = Fin (rd x)"
  using MAX_VALUE_below_threshold by (auto simp: fl_def)

lemma fl_nonneg_cases:
  "0 \<le> x \<Longrightarrow> fl x = PosInf \<and> MAX_VALUE < x \<or> fl x = Fin (rd x) \<and> 0 \<le> rd x"
  using MAX_VALUE_below_threshold by (auto simp: fl_def rd_nonneg)

text \<open>
  The rounding at some values: a third, a tie between two doubles above \<open>2^53\<close>, a value
  just below 1, ties and halves among the subnormal numbers, and the overflow threshold.
\<close>

lemma fl_examples:
  "fl (1 / 3) = Fin (6004799503160661 / 2 ^ 54)"
  "fl (- (1 / 3)) = Fin (- (6004799503160661 / 2 ^ 54))"
  "fl (2 ^ 53 + 1) = Fin (2 ^ 53)"
  "fl (2 ^ 53 + 3) = Fin (2 ^ 53 + 4)"
  "fl (1 - 1 / 2 ^ 60) = Fin 1"
  "fl (1 / 2 ^ 1075) = Fin 0"
  "fl (3 / 2 ^ 1075) = Fin (2 / 2 ^ 1074)"
  "fl (2 ^ 1024 - 2 ^ 970) = PosInf"
  "fl (2 ^ 1024 - 2 ^ 970 - 1) = Fin MAX_VALUE"
  "fl MAX_VALUE = Fin MAX_VALUE"
  by (simp_all add: eval_fl MAX_VALUE_def)

text \<open>The decimal literals of the source, as the doubles they denote.\<close>

lemma literals:
  "fl (1 / 100) = Fin (5764607523034235 / 2 ^ 59)"
  "fl (5 / 100) = Fin (3602879701896397 / 2 ^ 56)"
  "fl (10 / 100) = Fin (3602879701896397 / 2 ^ 55)"
  "fl (3 / 10) = Fin (5404319552844595 / 2 ^ 54)"
  "fl (3 / 10 ^ 7) = Fin (2833419889721787 / 2 ^ 73)"
  "fl (4 / 1000) = Fin (1152921504606847 / 2 ^ 58)"
  "fl (2 / 1000) = Fin (1152921504606847 / 2 ^ 59)"
  by (simp_all add: eval_fl)

lemma one_minus_discount: "js_minus (Fin 1) KIRK_DISCOUNT = Fin (3152519739159347 / 2 ^ 52)"
  by (simp add: KIRK_DISCOUNT_def eval_fl)

lemma pow10_18: "js_pow 10 KIRK_TOKEN_DECIMALS = Fin (10 ^ 18)"
  by (simp add: js_pow_def KIRK_TOKEN_DECIMALS_def eval_fl)

lemma pow10_6: "js_pow 10 USDC_DECIMALS = Fin (10 ^ 6)"
  by (simp add: js_pow_def USDC_DECIMALS_def eval_fl)

lemma registry_prices:
  "ENDPOINT_PRICES k = Some ep \<Longrightarrow>
     usdcPrice ep = Fin 0 \<or> usdcPrice ep = fl (1 / 100) \<or> usdcPrice ep = fl (5 / 100) \<or>
     usdcPrice ep = fl (10 / 100)"
  unfolding ENDPOINT_PRICES_def
  by (drule map_of_SomeD) (auto simp: ENDPOINT_PRICES_entries_def)

lemma registry_paid:
  assumes "ENDPOINT_PRICES k = Some ep" "usdcPrice ep = Fin u" "0 < u"
  shows "u = 5764607523034235 / 2 ^ 59 \<or> u = 3602879701896397 / 2 ^ 56 \<or>
         u = 3602879701896397 / 2 ^ 55"
  using registry_prices [OF assms(1)] assms(2,3) literals(1-3) by auto

lemma registry_paid_gt:
  assumes "ENDPOINT_PRICES k = Some ep" "js_gt (usdcPrice ep) (Fin 0)"
  shows "\<exists>u. usdcPrice ep = Fin u \<and> 0 < u \<and>
           (u = 5764607523034235 / 2 ^ 59 \<or> u = 3602879701896397 / 2 ^ 56 \<or>
            u = 3602879701896397 / 2 ^ 55)"
  using registry_prices [OF assms(1)] assms(2) literals(1-3) by (auto simp: js_gt_def)

lemma get_own: "ENDPOINT_PRICES k = Some ep \<Longrightarrow> ENDPOINT_PRICES_get k = Own ep"
  by (simp add: ENDPOINT_PRICES_get_def)








lemma kirkToRaw_finite:
  assumes "\<bar>a * 10 ^ 18\<bar> \<le> MAX_VALUE"
  shows "\<exists>s. kirkToRaw (Fin a) = Inr s"
  using fl_finite [OF assms] by (simp add: kirkToRaw_def pow10_18)

lemma usdcToRaw_registry:
  "usdcToRaw (Fin 0) = Inr ''0''"
  "usdcToRaw (fl (1 / 100)) = Inr ''10000''"
  "usdcToRaw (fl (5 / 100)) = Inr ''50000''"
  "usdcToRaw (fl (10 / 100)) = Inr ''100000''"
  by (simp_all add: usdcToRaw_def pow10_6 eval_fl BigInt_toString_def nat_toString.simps)

lemma kirkToRaw_zero: "kirkToRaw (Fin 0) = Inr ''0''"
  by (simp add: kirkToRaw_def pow10_18 eval_fl BigInt_toString_def nat_toString.simps)

lemma usdcToRaw_NaN: "usdcToRaw NaN = Inl RangeError"
  by (simp add: usdcToRaw_def pow10_6)

lemma calculateKirkAmount_nonpositive:
  "js_le p (Fin 0) \<Longrightarrow> calculateKirkAmount u p = Fin 0"
  by (simp add: calculateKirkAmount_def)

text \<open>
  The product \<open>usdcPrice * (1 - KIRK_DISCOUNT)\<close> for the three paid prices of the registry. The
  difference \<open>1 - 0.3\<close> is the double nearest to 0.7, which lies below 0.7, and each
  product is at most 0.7 times the price.
\<close>

lemma discounted:
  "js_times (Fin (5764607523034235 / 2 ^ 59)) (js_minus (Fin 1) KIRK_DISCOUNT)
     = Fin (1008806316530991 / 2 ^ 57)"
  "js_times (Fin (3602879701896397 / 2 ^ 56)) (js_minus (Fin 1) KIRK_DISCOUNT)
     = Fin (5044031582654955 / 2 ^ 57)"
  "js_times (Fin (3602879701896397 / 2 ^ 55)) (js_minus (Fin 1) KIRK_DISCOUNT)
     = Fin (5044031582654955 / 2 ^ 56)"
  by (simp_all add: one_minus_discount eval_fl)

lemma discounted_registry:
  assumes "u = 5764607523034235 / 2 ^ 59 \<or> u = 3602879701896397 / 2 ^ 56 \<or>
           u = 3602879701896397 / 2 ^ 55"
  shows "\<exists>d. js_times (Fin u) (js_minus (Fin 1) KIRK_DISCOUNT) = Fin d \<and>
           u * (7 / 10) * (1 - 1 / 2 ^ 52) \<le> d \<and> d \<le> u * (7 / 10) \<and>
           1 / 200 \<le> d \<and> d \<le> 1 / 10"
proof -
  from assms consider (a) "u = 5764607523034235 / 2 ^ 59" | (b) "u = 3602879701896397 / 2 ^ 56"
    | (c) "u = 3602879701896397 / 2 ^ 55" by blast
  then show ?thesis
  proof cases
    case a
    show ?thesis unfolding a using discounted(1)
      by (intro exI [of _ "1008806316530991 / 2 ^ 57"]) simp
  next
    case b
    show ?thesis unfolding b using discounted(2)
      by (intro exI [of _ "5044031582654955 / 2 ^ 57"]) simp
  next
    case c
    show ?thesis unfolding c using discounted(3)
      by (intro exI [of _ "5044031582654955 / 2 ^ 56"]) simp
  qed
qed

lemma js_divide_Fin: "b \<noteq> 0 \<Longrightarrow> js_divide (Fin a) (Fin b) = fl (a / b)"
  by simp

lemma js_le_Fin_0: "js_le (Fin p) (Fin 0) \<longleftrightarrow> p \<le> 0"
  by (auto simp: js_le_def)

lemma subnormal_bound: "1 / 2 ^ 1074 / 2 * MAX_VALUE < 1 / 200"
  by (simp add: MAX_VALUE_def)

lemma quotient_not_tiny:
  assumes "1 / 200 \<le> d" "0 < p" "p \<le> MAX_VALUE"
  shows "1 / 2 ^ 1074 / 2 < d / p"
proof -
  have "1 / 2 ^ 1074 / 2 * p \<le> 1 / 2 ^ 1074 / 2 * MAX_VALUE"
    using assms(3) by (intro mult_left_mono) simp_all
  also have "\<dots> < 1 / 200" by (rule subnormal_bound)
  also have "\<dots> \<le> d" by (rule assms(1))
  finally show ?thesis using assms(2) by (simp add: pos_less_divide_eq)
qed

lemma ceiling_one: "0 < (x::real) \<Longrightarrow> x < 1 \<Longrightarrow> \<lceil>x\<rceil> = 1"
  by (simp add: ceiling_eq_iff)

lemma ceil_quotient:
  assumes d: "1 / 200 \<le> d" "d \<le> 1 / 10" and p: "0 < p" "p \<le> MAX_VALUE"
  shows "Math_ceil (js_divide (Fin d) (Fin p)) = PosInf \<and> MAX_VALUE < d / p \<or>
    (\<exists>n::int. Math_ceil (js_divide (Fin d) (Fin p)) = Fin (of_int n) \<and> 0 < n \<and>
        d * (1 - 1 / 2 ^ 53) \<le> of_int n * p \<and>
        of_int n * p < d * (1 + 1 / 2 ^ 53) + p)"
proof -
  define x where "x = d / p"
  define e :: real where "e = 1 / 2 ^ 53"
  have e: "0 < e" "e < 1 / 4" by (simp_all add: e_def)
  have dpos: "0 < d" using d(1) by linarith
  have xpos: "0 < x" using dpos p(1) by (simp add: x_def)
  have xp: "x * p = d" using p(1) by (simp add: x_def)
  have dv: "js_divide (Fin d) (Fin p) = fl x"
    unfolding x_def using p(1) by (intro js_divide_Fin) simp
  from fl_nonneg_cases [of x] xpos
  consider (inf) "fl x = PosInf" "MAX_VALUE < x" | (fin) "fl x = Fin (rd x)" by auto
  then show ?thesis
  proof cases
    case inf
    have "Math_ceil (js_divide (Fin d) (Fin p)) = PosInf"
      by (simp only: dv inf Math_ceil.simps)
    with inf(2) show ?thesis unfolding x_def by blast
  next
    case fin
    have close: "\<bar>rd x - x\<bar> \<le> ulp x / 2" by (rule rd_close)
    have n_props: "0 < \<lceil>rd x\<rceil> \<and> x * (1 - e) \<le> of_int \<lceil>rd x\<rceil> \<and>
        of_int \<lceil>rd x\<rceil> < x * (1 + e) + 1"
    proof (cases "x \<le> 1 / 2")
      case True
      have tiny: "1 / 2 ^ 1074 / 2 < x"
        unfolding x_def by (rule quotient_not_tiny [OF d(1) p])
      have u: "ulp x / 2 < x \<and> ulp x / 2 < 1 / 2"
      proof -
        from ulp_bound [of x] show ?thesis
        proof
          assume "ulp x = 1 / 2 ^ 1074"
          moreover have "(1 / 2 ^ 1074 / 2 :: real) < 1 / 2" by simp
          ultimately show ?thesis using tiny by simp
        next
          assume "ulp x \<le> \<bar>x\<bar> / 2 ^ 52"
          then have "ulp x / 2 \<le> x * e" using xpos by (simp add: e_def)
          moreover have "x * e < x" using xpos e by simp
          moreover have "x < 1 / 2 \<or> x = 1 / 2" using True by linarith
          ultimately show ?thesis using True by linarith
        qed
      qed
      from close u True have r: "0 < rd x" "rd x < 1" by linarith+
      then have c: "\<lceil>rd x\<rceil> = 1" by (rule ceiling_one)
      have "0 \<le> x * e" using xpos e by simp
      then have "x * (1 - e) \<le> 1" using True by (simp add: algebra_simps)
      moreover have "1 < x * (1 + e) + 1" using xpos e by simp
      ultimately show ?thesis using c by simp
    next
      case False
      have "(1 / 2 ^ 1022 :: real) \<le> 1 / 2" by simp
      with False have "1 / 2 ^ 1022 \<le> \<bar>x\<bar>" by linarith
      from ulp_normal [OF this] have "ulp x / 2 \<le> x * e"
        using xpos by (simp add: e_def)
      with close have r: "x - x * e \<le> rd x" "rd x \<le> x + x * e" by linarith+
      have "x * e < x" using xpos e by simp
      with r(1) have rpos: "0 < rd x" by linarith
      have c1: "rd x \<le> of_int \<lceil>rd x\<rceil>" by (rule le_of_int_ceiling)
      have c2: "of_int \<lceil>rd x\<rceil> < rd x + 1" by linarith
      have a1: "x * (1 - e) = x - x * e" by (simp add: algebra_simps)
      have a2: "x * (1 + e) = x + x * e" by (simp add: algebra_simps)
      have "0 < \<lceil>rd x\<rceil>" using rpos by (simp add: less_ceiling_iff)
      moreover have "x * (1 - e) \<le> of_int \<lceil>rd x\<rceil>" using r(1) c1 a1 by linarith
      moreover have "of_int \<lceil>rd x\<rceil> < x * (1 + e) + 1" using r(2) c2 a2 by linarith
      ultimately show ?thesis by simp
    qed
    let ?n = "\<lceil>rd x\<rceil>"
    from n_props have "x * (1 - e) * p \<le> of_int ?n * p"
      using p(1) by (intro mult_right_mono) simp_all
    moreover have "x * (1 - e) * p = d * (1 - e)" using xp by (simp add: algebra_simps)
    ultimately have lo: "d * (1 - e) \<le> of_int ?n * p" by simp
    from n_props have "of_int ?n * p < (x * (1 + e) + 1) * p"
      using p(1) by (intro mult_strict_right_mono) simp_all
    moreover have "(x * (1 + e) + 1) * p = d * (1 + e) + p" using xp by (simp add: algebra_simps)
    ultimately have hi: "of_int ?n * p < d * (1 + e) + p" by simp
    have "Math_ceil (js_divide (Fin d) (Fin p)) = Fin (of_int ?n)"
      by (simp only: dv fin Math_ceil.simps)
    with n_props lo hi show ?thesis unfolding e_def by blast
  qed
qed

section \<open>Properties of the quote calculation\<close>

lemma slack_lower: "1 - 1 / 2 ^ 51 \<le> (1 - 1 / 2 ^ 52) * (1 - 1 / 2 ^ 53 :: real)"
  by simp

lemma slack_upper: "(29 / 100 :: real) + 7 / 10 * (1 + 1 / 2 ^ 53) < 1"
  by simp

lemma calculateKirkAmount_registry:
  assumes reg: "ENDPOINT_PRICES k = Some ep" "usdcPrice ep = Fin u" "0 < u"
  shows "\<exists>d. 1 / 200 \<le> d \<and> d \<le> 1 / 10 \<and>
           u * (7 / 10) * (1 - 1 / 2 ^ 52) \<le> d \<and> d \<le> u * (7 / 10) \<and>
           calculateKirkAmount (Fin u) PosInf = Fin 0 \<and>
           (\<forall>p. 0 < p \<longrightarrow>
              calculateKirkAmount (Fin u) (Fin p) = Math_ceil (js_divide (Fin d) (Fin p)))"
proof -
  from discounted_registry [OF registry_paid [OF reg]] obtain d
    where t: "js_times (Fin u) (js_minus (Fin 1) KIRK_DISCOUNT) = Fin d"
      and b: "u * (7 / 10) * (1 - 1 / 2 ^ 52) \<le> d" "d \<le> u * (7 / 10)" "1 / 200 \<le> d" "d \<le> 1 / 10"
    by blast
  have "\<not> js_le PosInf (Fin 0)" by (simp add: js_le_def)
  then have "calculateKirkAmount (Fin u) PosInf = Math_ceil (js_divide (Fin d) PosInf)"
    by (simp only: calculateKirkAmount_def Let_def t if_False)
  then have inf: "calculateKirkAmount (Fin u) PosInf = Fin 0" by simp
  have "calculateKirkAmount (Fin u) (Fin p) = Math_ceil (js_divide (Fin d) (Fin p))"
    if "0 < p" for p
  proof -
    from that have "\<not> js_le (Fin p) (Fin 0)" by (simp add: js_le_Fin_0)
    then show ?thesis by (simp only: calculateKirkAmount_def Let_def t if_False)
  qed
  with b inf show ?thesis by blast
qed

text \<open>
  C1 (amended): for a registered route with a positive price \<open>u\<close> and a finite feed
  price \<open>p > 0\<close>, the KIRK amount is \<open>Infinity\<close> (only when \<open>u / p\<close> is beyond the range of a
  double) or a whole number \<open>n\<close> of tokens whose value \<open>n p\<close> is positive, at least
  \<open>0.7 u (1 - 2^-51)\<close> and less than \<open>0.7 u (1 + 2^-51) + p\<close>; it is below the USDC price \<open>u\<close>
  when \<open>p \<le> 0.29 u\<close>. The factors next to \<open>0.7 u\<close> come from the rounding of the product and
  of the quotient; the ceiling rounds the payer's amount up, not down. At the feed price
  \<open>Infinity\<close> the amount is 0.
\<close>

theorem kirk_quote_value:
  assumes "ENDPOINT_PRICES k = Some ep" "usdcPrice ep = Fin u" "0 < u"
    and "0 < p" "p \<le> MAX_VALUE"
  shows "calculateKirkAmount (Fin u) PosInf = Fin 0 \<and>
    (calculateKirkAmount (Fin u) (Fin p) = PosInf \<and> MAX_VALUE < u / p \<or>
     (\<exists>n::int. calculateKirkAmount (Fin u) (Fin p) = Fin (of_int n) \<and>
        0 < of_int n * p \<and>
        u * (7 / 10) * (1 - 1 / 2 ^ 51) \<le> of_int n * p \<and>
        of_int n * p < u * (7 / 10) * (1 + 1 / 2 ^ 51) + p \<and>
        (p \<le> u * (29 / 100) \<longrightarrow> of_int n * p < u)))"
proof -
  from calculateKirkAmount_registry [OF assms(1-3)] assms(4) obtain d
    where d: "1 / 200 \<le> d" "d \<le> 1 / 10"
      and b: "u * (7 / 10) * (1 - 1 / 2 ^ 52) \<le> d" "d \<le> u * (7 / 10)"
      and inf: "calculateKirkAmount (Fin u) PosInf = Fin 0"
      and c: "calculateKirkAmount (Fin u) (Fin p) = Math_ceil (js_divide (Fin d) (Fin p))"
    by blast
  define A where "A = u * (7 / 10)"
  have A: "0 < A" using assms(3) by (simp add: A_def)
  have dpos: "0 < d" using d(1) by linarith
  from ceil_quotient [OF d assms(4,5)] show ?thesis
  proof
    assume o: "Math_ceil (js_divide (Fin d) (Fin p)) = PosInf \<and> MAX_VALUE < d / p"
    have "d \<le> u" using b(2) assms(3) by linarith
    then have "d / p \<le> u / p" using assms(4) by (simp add: divide_right_mono)
    with o c inf show ?thesis by auto
  next
    assume "\<exists>n::int. Math_ceil (js_divide (Fin d) (Fin p)) = Fin (of_int n) \<and> 0 < n \<and>
        d * (1 - 1 / 2 ^ 53) \<le> of_int n * p \<and> of_int n * p < d * (1 + 1 / 2 ^ 53) + p"
    then obtain n :: int where n: "Math_ceil (js_divide (Fin d) (Fin p)) = Fin (of_int n)"
      "0 < n" "d * (1 - 1 / 2 ^ 53) \<le> of_int n * p" "of_int n * p < d * (1 + 1 / 2 ^ 53) + p"
      by blast
    have pos: "0 < of_int n * p" using n(2) assms(4) by simp
    have "A * (1 - 1 / 2 ^ 51) \<le> A * ((1 - 1 / 2 ^ 52) * (1 - 1 / 2 ^ 53))"
      using A slack_lower by (intro mult_left_mono) simp_all
    also have "\<dots> = A * (1 - 1 / 2 ^ 52) * (1 - 1 / 2 ^ 53)" by simp
    also have "\<dots> \<le> d * (1 - 1 / 2 ^ 53)"
      using b(1) unfolding A_def by (intro mult_right_mono) simp_all
    also have "\<dots> \<le> of_int n * p" by (rule n(3))
    finally have lo: "A * (1 - 1 / 2 ^ 51) \<le> of_int n * p" .
    have "d * (1 + 1 / 2 ^ 53) \<le> A * (1 + 1 / 2 ^ 53)"
      using b(2) unfolding A_def by (intro mult_right_mono) simp_all
    with n(4) have hi53: "of_int n * p < A * (1 + 1 / 2 ^ 53) + p" by linarith
    have "A * (1 + 1 / 2 ^ 53) \<le> A * (1 + 1 / 2 ^ 51)"
      using A by (intro mult_left_mono) simp_all
    with hi53 have hi: "of_int n * p < A * (1 + 1 / 2 ^ 51) + p" by linarith
    have below: "of_int n * p < u" if "p \<le> u * (29 / 100)"
    proof -
      have "A * (1 + 1 / 2 ^ 53) + u * (29 / 100) = u * (29 / 100 + 7 / 10 * (1 + 1 / 2 ^ 53))"
        by (simp add: A_def algebra_simps)
      also have "\<dots> < u * 1"
        using assms(3) slack_upper by (intro mult_strict_left_mono) simp_all
      finally show ?thesis using hi53 that by linarith
    qed
    from n(1) c pos lo hi below inf show ?thesis unfolding A_def by auto
  qed
qed

text \<open>The instance of the scenario: price 0.05, feed price 0.0000003.\<close>

theorem kirk_quote_value_witness:
  "ENDPOINT_PRICES ''performance'' = Some \<lparr>usdcPrice = fl (5 / 100), tier = standard\<rparr> \<and>
   fl (5 / 100) = Fin (3602879701896397 / 2 ^ 56) \<and>
   fl (3 / 10 ^ 7) = Fin (2833419889721787 / 2 ^ 73) \<and>
   (2833419889721787 / 2 ^ 73 :: real) \<le> MAX_VALUE \<and>
   calculateKirkAmount (Fin (3602879701896397 / 2 ^ 56)) PosInf = Fin 0 \<and>
   (\<exists>n::int. calculateKirkAmount (Fin (3602879701896397 / 2 ^ 56))
                (Fin (2833419889721787 / 2 ^ 73)) = Fin (of_int n) \<and>
        3602879701896397 / 2 ^ 56 * (7 / 10) * (1 - 1 / 2 ^ 51)
          \<le> of_int n * (2833419889721787 / 2 ^ 73 :: real) \<and>
        of_int n * (2833419889721787 / 2 ^ 73)
          < 3602879701896397 / 2 ^ 56 * (7 / 10) * (1 + 1 / 2 ^ 51)
            + (2833419889721787 / 2 ^ 73 :: real) \<and>
        of_int n * (2833419889721787 / 2 ^ 73) < (3602879701896397 / 2 ^ 56 :: real))"
proof -
  have h: "ENDPOINT_PRICES ''performance'' = Some \<lparr>usdcPrice = fl (5 / 100), tier = standard\<rparr>"
    "usdcPrice \<lparr>usdcPrice = fl (5 / 100), tier = standard\<rparr> = Fin (3602879701896397 / 2 ^ 56)"
    "(0::real) < 3602879701896397 / 2 ^ 56" "(0::real) < 2833419889721787 / 2 ^ 73"
    "(2833419889721787 / 2 ^ 73 :: real) \<le> MAX_VALUE"
    "(2833419889721787 / 2 ^ 73 :: real) \<le> 3602879701896397 / 2 ^ 56 * (29 / 100)"
    "\<not> MAX_VALUE < (3602879701896397 / 2 ^ 56) / (2833419889721787 / 2 ^ 73)"
    using literals(2)
    by (simp_all add: ENDPOINT_PRICES_def ENDPOINT_PRICES_entries_def MAX_VALUE_def)
  from kirk_quote_value [OF h(1-5)] h(6,7)
  have "calculateKirkAmount (Fin (3602879701896397 / 2 ^ 56)) PosInf = Fin 0 \<and>
   (\<exists>n::int. calculateKirkAmount (Fin (3602879701896397 / 2 ^ 56))
                (Fin (2833419889721787 / 2 ^ 73)) = Fin (of_int n) \<and>
        3602879701896397 / 2 ^ 56 * (7 / 10) * (1 - 1 / 2 ^ 51)
          \<le> of_int n * (2833419889721787 / 2 ^ 73 :: real) \<and>
        of_int n * (2833419889721787 / 2 ^ 73)
          < 3602879701896397 / 2 ^ 56 * (7 / 10) * (1 + 1 / 2 ^ 51)
            + (2833419889721787 / 2 ^ 73 :: real) \<and>
        of_int n * (2833419889721787 / 2 ^ 73) < (3602879701896397 / 2 ^ 56 :: real))"
    by blast
  with h(1,5) literals(2,5) show ?thesis by blast
qed

text \<open>
  C1 as first stated fails: 116667 tokens at 0.0000003 are worth more than
  \<open>0.7 \<times> 0.05\<close>, and at a feed price of 1 the single token quoted is worth more than the
  USDC price 0.05.
\<close>

theorem kirk_quote_value_counterexample:
  "ENDPOINT_PRICES ''performance'' = Some \<lparr>usdcPrice = fl (5 / 100), tier = standard\<rparr> \<and>
   fl (5 / 100) = Fin (3602879701896397 / 2 ^ 56) \<and>
   fl (3 / 10 ^ 7) = Fin (2833419889721787 / 2 ^ 73) \<and>
   calculateKirkAmount (fl (5 / 100)) (fl (3 / 10 ^ 7)) = Fin 116667 \<and>
   \<not> (116667 * (2833419889721787 / 2 ^ 73) \<le> 7 / 10 * (3602879701896397 / 2 ^ 56 :: real)) \<and>
   calculateKirkAmount (fl (5 / 100)) (Fin 1) = Fin 1 \<and>
   \<not> (1 * 1 \<le> (3602879701896397 / 2 ^ 56 :: real))"
  by (simp add: ENDPOINT_PRICES_def ENDPOINT_PRICES_entries_def calculateKirkAmount_def
        js_le_def KIRK_DISCOUNT_def eval_fl)

text \<open>
  The rounding at work: \<open>0.01 * 0.7\<close> is a double below 0.007, so that at the feed price
  0.0007 the quotient is below 10 and 10 tokens are quoted; likewise 50000 tokens for
  0.05 at the feed price 0.0000007. The product \<open>116667 * 10 ** 18\<close> is rounded to a
  double too.
\<close>

lemma rounding_examples:
  "calculateKirkAmount (fl (1 / 100)) (fl (7 / 10 ^ 4)) = Fin 10"
  "calculateKirkAmount (fl (5 / 100)) (fl (7 / 10 ^ 7)) = Fin 50000"
  "kirkToRaw (Fin 116667) = Inr ''116666999999999999213568''"
  by (simp_all add: calculateKirkAmount_def js_le_def KIRK_DISCOUNT_def eval_fl
        kirkToRaw_def js_pow_def KIRK_TOKEN_DECIMALS_def BigInt_toString_def nat_toString.simps)

lemma usdcToRaw_paid:
  assumes "ENDPOINT_PRICES k = Some ep"
  shows "\<exists>n. usdcToRaw (usdcPrice ep) = Inr (nat_toString n)"
proof -
  from registry_prices [OF assms]
  consider "usdcPrice ep = Fin 0" | "usdcPrice ep = fl (1 / 100)"
    | "usdcPrice ep = fl (5 / 100)" | "usdcPrice ep = fl (10 / 100)" by blast
  then show ?thesis
  proof cases
    case 1
    have "''0'' = nat_toString 0" by (simp add: nat_toString.simps)
    with 1 usdcToRaw_registry(1) show ?thesis by metis
  next
    case 2
    have "''10000'' = nat_toString 10000" by (simp add: nat_toString.simps)
    with 2 usdcToRaw_registry(2) show ?thesis by metis
  next
    case 3
    have "''50000'' = nat_toString 50000" by (simp add: nat_toString.simps)
    with 3 usdcToRaw_registry(3) show ?thesis by metis
  next
    case 4
    have "''100000'' = nat_toString 100000" by (simp add: nat_toString.simps)
    with 4 usdcToRaw_registry(4) show ?thesis by metis
  qed
qed

lemma usdcToRaw_registry_ex:
  assumes "ENDPOINT_PRICES k = Some ep"
  shows "\<exists>s. usdcToRaw (usdcPrice ep) = Inr s"
  using usdcToRaw_paid [OF assms] by blast

lemma dualTokenAccepts_paid:
  assumes "ENDPOINT_PRICES k = Some ep" "\<not> js_eq (usdcPrice ep) (Fin 0)"
    and "usdcToRaw (usdcPrice ep) = Inr usdcRaw"
    and "kirkToRaw (calculateKirkAmount (usdcPrice ep) p) = Inr kirkRaw"
  shows "dualTokenAccepts cfg k p =
    Inr [\<lparr>scheme = exact, network = NETWORK cfg, payTo = KIRK_TREASURY_ADDRESS cfg,
           price = \<lparr>asset = USDC_ADDRESS cfg, amount = usdcRaw,
                    extra = \<lparr>name = ''USD Coin'', symbol = ''USDC'', decimals = USDC_DECIMALS\<rparr>\<rparr>\<rparr>,
         \<lparr>scheme = upto, network = NETWORK cfg, payTo = KIRK_TREASURY_ADDRESS cfg,
           price = \<lparr>asset = KIRK_TOKEN_ADDRESS cfg, amount = kirkRaw,
                    extra = \<lparr>name = ''Kirk'', symbol = ''KIRK'', decimals = KIRK_TOKEN_DECIMALS\<rparr>\<rparr>\<rparr>]"
  using assms by (simp add: dualTokenAccepts_def get_own)

lemma dualTokenAccepts_free:
  assumes "ENDPOINT_PRICES k = Some ep" "js_eq (usdcPrice ep) (Fin 0)"
  shows "dualTokenAccepts cfg k p = Inr []"
  using assms by (simp add: dualTokenAccepts_def get_own)






lemma Math_ceil_fl_nonneg:
  assumes "0 \<le> x" "Math_ceil (fl x) = Fin r"
  shows "0 \<le> r"
proof -
  from fl_nonneg_cases [OF assms(1)] assms(2)
  have "r = of_int \<lceil>rd x\<rceil>" "0 \<le> rd x" by auto
  then show ?thesis by (simp add: zero_le_ceiling)
qed

lemma amount_nonneg:
  assumes reg: "ENDPOINT_PRICES k = Some ep" "usdcPrice ep = Fin u" "0 < u"
    and r: "calculateKirkAmount (Fin u) p = Fin r"
  shows "0 \<le> r"
proof (cases "js_le p (Fin 0)")
  case True
  with r show ?thesis by (simp add: calculateKirkAmount_def)
next
  case False
  from discounted_registry [OF registry_paid [OF reg]] obtain d
    where t: "js_times (Fin u) (js_minus (Fin 1) KIRK_DISCOUNT) = Fin d" and d: "1 / 200 \<le> d"
    by blast
  have dpos: "0 < d" using d by linarith
  from False r have c: "Math_ceil (js_divide (Fin d) p) = Fin r"
    by (simp only: calculateKirkAmount_def Let_def if_False t)
  show ?thesis
  proof (cases p)
    case (Fin q)
    with False have q: "0 < q" by (simp add: js_le_Fin_0)
    then have "js_divide (Fin d) p = fl (d / q)"
      using Fin by (simp only: js_divide_Fin [of q d])
    with c have "Math_ceil (fl (d / q)) = Fin r" by simp
    moreover have "0 \<le> d / q" using dpos q by simp
    ultimately show ?thesis by (rule Math_ceil_fl_nonneg [rotated])
  next
    case PosInf
    with c show ?thesis by simp
  next
    case NegInf
    with c show ?thesis by simp
  next
    case NaN
    with c show ?thesis by simp
  qed
qed

text \<open>
  C4 (amended): for a key of the registry, a zero price gives the empty list; a positive
  price with a positive feed price gives exactly two requirements, the first \<open>exact\<close> in
  USDC and the second \<open>upto\<close> in KIRK, provided the KIRK amount in base units is within
  the range of a double.
\<close>

theorem dualTokenAccepts_count:
  assumes "ENDPOINT_PRICES k = Some ep"
  shows "(js_eq (usdcPrice ep) (Fin 0) \<longrightarrow> dualTokenAccepts cfg k p = Inr []) \<and>
    (js_gt (usdcPrice ep) (Fin 0) \<and> js_gt p (Fin 0) \<and>
     calculateKirkAmount (usdcPrice ep) p = Fin r \<and> r * 10 ^ 18 \<le> MAX_VALUE \<longrightarrow>
       (\<exists>a b. dualTokenAccepts cfg k p = Inr [a, b] \<and>
          scheme a = exact \<and> asset (requirement.price a) = USDC_ADDRESS cfg \<and>
          scheme b = upto \<and> asset (requirement.price b) = KIRK_TOKEN_ADDRESS cfg))"
proof (intro conjI impI)
  assume "js_eq (usdcPrice ep) (Fin 0)"
  with assms show "dualTokenAccepts cfg k p = Inr []"
    by (rule dualTokenAccepts_free)
next
  assume h: "js_gt (usdcPrice ep) (Fin 0) \<and> js_gt p (Fin 0) \<and>
     calculateKirkAmount (usdcPrice ep) p = Fin r \<and> r * 10 ^ 18 \<le> MAX_VALUE"
  from registry_paid_gt [OF assms] h obtain u
    where u: "usdcPrice ep = Fin u" "0 < u" by blast
  from h u have "calculateKirkAmount (Fin u) p = Fin r" by simp
  from amount_nonneg [OF assms u this] have "0 \<le> r" .
  with h have "\<bar>r * 10 ^ 18\<bar> \<le> MAX_VALUE" by simp
  from kirkToRaw_finite [OF this] h obtain kirkRaw
    where kr: "kirkToRaw (calculateKirkAmount (usdcPrice ep) p) = Inr kirkRaw" by auto
  from usdcToRaw_registry_ex [OF assms] obtain usdcRaw
    where ur: "usdcToRaw (usdcPrice ep) = Inr usdcRaw" ..
  have nz: "\<not> js_eq (usdcPrice ep) (Fin 0)" using u by auto
  show "\<exists>a b. dualTokenAccepts cfg k p = Inr [a, b] \<and>
          scheme a = exact \<and> asset (requirement.price a) = USDC_ADDRESS cfg \<and>
          scheme b = upto \<and> asset (requirement.price b) = KIRK_TOKEN_ADDRESS cfg"
    by (simp add: dualTokenAccepts_paid [OF assms nz ur kr])
qed

text \<open>The definitions that an evaluation of \<open>dualTokenAccepts\<close> unfolds.\<close>

lemmas eval_defs = ENDPOINT_PRICES_def ENDPOINT_PRICES_entries_def ENDPOINT_PRICES_get_def
  Object_prototype_names_def dualTokenAccepts_def
  calculateKirkAmount_def js_le_def js_gt_def KIRK_DISCOUNT_def kirkToRaw_def usdcToRaw_def
  js_pow_def KIRK_TOKEN_DECIMALS_def USDC_DECIMALS_def eval_fl
  BigInt_toString_def nat_toString.simps default_tokens_def

lemma amounts_at_004:
  "calculateKirkAmount (Fin 0) (fl (4 / 1000)) = Fin 0"
  "calculateKirkAmount (fl (1 / 100)) (fl (4 / 1000)) = Fin 2"
  "calculateKirkAmount (fl (5 / 100)) (fl (4 / 1000)) = Fin 9"
  "calculateKirkAmount (fl (10 / 100)) (fl (4 / 1000)) = Fin 18"
  by (simp_all add: calculateKirkAmount_def js_le_def KIRK_DISCOUNT_def eval_fl)

text \<open>An instance: the free route \<open>health\<close> and the paid route \<open>summary\<close> at feed price 0.004.\<close>

theorem dualTokenAccepts_count_witness:
  "dualTokenAccepts default_tokens ''health'' (fl (4 / 1000)) = Inr [] \<and>
   (\<exists>a b. dualTokenAccepts default_tokens ''summary'' (fl (4 / 1000)) = Inr [a, b] \<and>
      scheme a = exact \<and> asset (requirement.price a) = USDC_ADDRESS default_tokens \<and>
      scheme b = upto \<and> asset (requirement.price b) = KIRK_TOKEN_ADDRESS default_tokens)"
proof -
  have h: "ENDPOINT_PRICES ''health'' = Some \<lparr>usdcPrice = Fin 0, tier = free\<rparr>"
    "ENDPOINT_PRICES ''summary'' = Some \<lparr>usdcPrice = fl (1 / 100), tier = light\<rparr>"
    "(2 * 10 ^ 18 :: real) \<le> MAX_VALUE"
    by (simp_all add: ENDPOINT_PRICES_def ENDPOINT_PRICES_entries_def MAX_VALUE_def)
  have g: "js_gt (fl (1 / 100)) (Fin 0)" "js_gt (fl (4 / 1000)) (Fin 0)"
    using literals(1,6) by (simp_all add: js_gt_def)
  from dualTokenAccepts_count [OF h(1), of default_tokens "fl (4 / 1000)" 0]
  have a: "dualTokenAccepts default_tokens ''health'' (fl (4 / 1000)) = Inr []" by simp
  from dualTokenAccepts_count [OF h(2), of default_tokens "fl (4 / 1000)" 2]
    g h(3) amounts_at_004(2)
  have "\<exists>a b. dualTokenAccepts default_tokens ''summary'' (fl (4 / 1000)) = Inr [a, b] \<and>
      scheme a = exact \<and> asset (requirement.price a) = USDC_ADDRESS default_tokens \<and>
      scheme b = upto \<and> asset (requirement.price b) = KIRK_TOKEN_ADDRESS default_tokens"
    by simp
  with a show ?thesis by blast
qed

lemma tiny_price: "fl (1 / 10 ^ 300) = Fin (6032057205060441 / 2 ^ 1049)"
  by (simp add: eval_fl)

lemma tiny_price_amount:
  "calculateKirkAmount (Fin (5764607523034235 / 2 ^ 59)) (Fin (6032057205060441 / 2 ^ 1049))
     = Fin (753185786667693 * 2 ^ 940)"
  by (simp add: calculateKirkAmount_def js_le_def KIRK_DISCOUNT_def eval_fl)

lemma tiny_price_raw: "kirkToRaw (Fin (753185786667693 * 2 ^ 940)) = Inl RangeError"
  by (simp add: kirkToRaw_def js_pow_def KIRK_TOKEN_DECIMALS_def eval_fl)

text \<open>
  C4 as first stated fails: at the positive feed price \<open>10^-300\<close> the builder throws
  for the paid route \<open>summary\<close>.
\<close>

theorem dualTokenAccepts_count_counterexample:
  "ENDPOINT_PRICES ''summary'' = Some \<lparr>usdcPrice = fl (1 / 100), tier = light\<rparr> \<and>
   js_gt (fl (1 / 100)) (Fin 0) \<and>
   js_gt (fl (1 / 10 ^ 300)) (Fin 0) \<and>
   dualTokenAccepts default_tokens ''summary'' (fl (1 / 10 ^ 300)) = Inl RangeError"
proof -
  have h: "ENDPOINT_PRICES ''summary'' = Some \<lparr>usdcPrice = fl (1 / 100), tier = light\<rparr>"
    by (simp add: ENDPOINT_PRICES_def ENDPOINT_PRICES_entries_def)
  have g: "js_gt (fl (1 / 100)) (Fin 0)" "js_gt (fl (1 / 10 ^ 300)) (Fin 0)"
    unfolding tiny_price literals(1) by (simp_all add: js_gt_def)
  have nz: "\<not> js_eq (fl (1 / 100)) (Fin 0)" unfolding literals(1) by simp
  have k: "kirkToRaw (calculateKirkAmount (fl (1 / 100)) (fl (1 / 10 ^ 300))) = Inl RangeError"
    unfolding tiny_price literals(1) tiny_price_amount by (rule tiny_price_raw)
  have u: "usdcToRaw (fl (1 / 100)) = Inr ''10000''" by (rule usdcToRaw_registry(2))
  have "dualTokenAccepts default_tokens ''summary'' (fl (1 / 10 ^ 300)) = Inl RangeError"
    unfolding dualTokenAccepts_def get_own [OF h] Let_def
    by (simp only: property.case EndpointPrice.simps nz if_False u k sum.case)
  with h g show ?thesis by blast
qed

text \<open>
  C2 (amended): for a registered route with a positive price, a feed price \<open>\<le> 0\<close> still
  gives both requirements; the \<open>upto\<close> requirement in KIRK is there with the amount
  \<open>"0"\<close>.
\<close>

theorem nonpositive_feed_price:
  assumes "ENDPOINT_PRICES k = Some ep" "js_gt (usdcPrice ep) (Fin 0)" "js_le p (Fin 0)"
  shows "\<exists>usdcRaw. dualTokenAccepts cfg k p =
    Inr [\<lparr>scheme = exact, network = NETWORK cfg, payTo = KIRK_TREASURY_ADDRESS cfg,
           price = \<lparr>asset = USDC_ADDRESS cfg, amount = usdcRaw,
                    extra = \<lparr>name = ''USD Coin'', symbol = ''USDC'', decimals = USDC_DECIMALS\<rparr>\<rparr>\<rparr>,
         \<lparr>scheme = upto, network = NETWORK cfg, payTo = KIRK_TREASURY_ADDRESS cfg,
           price = \<lparr>asset = KIRK_TOKEN_ADDRESS cfg, amount = ''0'',
                    extra = \<lparr>name = ''Kirk'', symbol = ''KIRK'', decimals = KIRK_TOKEN_DECIMALS\<rparr>\<rparr>\<rparr>]"
proof -
  from registry_paid_gt [OF assms(1,2)] have nz: "\<not> js_eq (usdcPrice ep) (Fin 0)" by auto
  from usdcToRaw_registry_ex [OF assms(1)] obtain usdcRaw
    where ur: "usdcToRaw (usdcPrice ep) = Inr usdcRaw" ..
  have kr: "kirkToRaw (calculateKirkAmount (usdcPrice ep) p) = Inr ''0''"
    by (simp add: calculateKirkAmount_nonpositive [OF assms(3)] kirkToRaw_zero)
  from dualTokenAccepts_paid [OF assms(1) nz ur kr] show ?thesis by blast
qed

text \<open>An instance: the route \<open>tradebook\<close> at feed price \<open>-1\<close>.\<close>

theorem nonpositive_feed_price_witness:
  "\<exists>usdcRaw. dualTokenAccepts default_tokens ''tradebook'' (Fin (- 1)) =
    Inr [\<lparr>scheme = exact, network = NETWORK default_tokens,
           payTo = KIRK_TREASURY_ADDRESS default_tokens,
           price = \<lparr>asset = USDC_ADDRESS default_tokens, amount = usdcRaw,
                    extra = \<lparr>name = ''USD Coin'', symbol = ''USDC'', decimals = USDC_DECIMALS\<rparr>\<rparr>\<rparr>,
         \<lparr>scheme = upto, network = NETWORK default_tokens,
           payTo = KIRK_TREASURY_ADDRESS default_tokens,
           price = \<lparr>asset = KIRK_TOKEN_ADDRESS default_tokens, amount = ''0'',
                    extra = \<lparr>name = ''Kirk'', symbol = ''KIRK'', decimals = KIRK_TOKEN_DECIMALS\<rparr>\<rparr>\<rparr>]"
proof -
  have h: "ENDPOINT_PRICES ''tradebook'' = Some \<lparr>usdcPrice = fl (10 / 100), tier = deep\<rparr>"
    "js_le (Fin (- 1)) (Fin 0)"
    by (simp_all add: ENDPOINT_PRICES_def ENDPOINT_PRICES_entries_def js_le_def)
  have g: "js_gt (usdcPrice \<lparr>usdcPrice = fl (10 / 100), tier = deep\<rparr>) (Fin 0)"
    using literals(3) by (simp add: js_gt_def)
  from h(1) g h(2) show ?thesis by (rule nonpositive_feed_price)
qed

text \<open>
  C2 as first stated fails: at feed price 0 the set for \<open>summary\<close> holds an
  \<open>upto\<close> requirement with amount \<open>"0"\<close>.
\<close>

theorem nonpositive_feed_price_counterexample:
  "dualTokenAccepts default_tokens ''summary'' (Fin 0) =
    Inr [\<lparr>scheme = exact, network = ''eip155:8453'',
           payTo = ''0x54376e042acd7cf3bea1a40aff9c33b47e7ec5de'',
           price = \<lparr>asset = ''0x833589fCD6eDb6E08f4c7C32D4f71b54bdA02913'', amount = ''10000'',
                    extra = \<lparr>name = ''USD Coin'', symbol = ''USDC'', decimals = 6\<rparr>\<rparr>\<rparr>,
         \<lparr>scheme = upto, network = ''eip155:8453'',
           payTo = ''0x54376e042acd7cf3bea1a40aff9c33b47e7ec5de'',
           price = \<lparr>asset = ''0x73b83F8553480e8A8bb56B53618d5e70C8051e37'', amount = ''0'',
                    extra = \<lparr>name = ''Kirk'', symbol = ''KIRK'', decimals = 18\<rparr>\<rparr>\<rparr>]"
  by (simp add: eval_defs)

text \<open>No name inherited from \<open>Object.prototype\<close> is a key of the registry.\<close>

lemma inherited_all: "list_all (\<lambda>k. ENDPOINT_PRICES k = None) Object_prototype_names"
  by (simp add: Object_prototype_names_def ENDPOINT_PRICES_def ENDPOINT_PRICES_entries_def)

lemma inherited_none: "k \<in> set Object_prototype_names \<Longrightarrow> ENDPOINT_PRICES k = None"
  using inherited_all by (simp add: list_all_iff)

lemma dualTokenAccepts_inherited:
  assumes "k \<in> set Object_prototype_names"
  shows "dualTokenAccepts cfg k p = Inl RangeError"
proof -
  from assms have "ENDPOINT_PRICES_get k = Inherited"
    by (simp add: ENDPOINT_PRICES_get_def inherited_none)
  then show ?thesis by (simp add: dualTokenAccepts_def usdcToRaw_NaN)
qed

text \<open>
  C6 (amended): a key for which the registry has no entry is no configuration error.
  When the key is not a name inherited from \<open>Object.prototype\<close>, the builder returns the
  empty list for it, as it does for the free route \<open>health\<close>. When it is such a name
  (\<open>toString\<close>, \<open>constructor\<close>, ...), the builder throws a \<open>RangeError\<close>, from the conversion
  of the price that is not there.
\<close>

theorem absent_key_is_free:
  "(ENDPOINT_PRICES k = None \<and> k \<notin> set Object_prototype_names \<longrightarrow>
     dualTokenAccepts cfg k p = Inr [] \<and>
     dualTokenAccepts cfg k p = dualTokenAccepts cfg ''health'' p) \<and>
   (k \<in> set Object_prototype_names \<longrightarrow>
     ENDPOINT_PRICES k = None \<and> dualTokenAccepts cfg k p = Inl RangeError)"
proof -
  have "ENDPOINT_PRICES ''health'' = Some \<lparr>usdcPrice = Fin 0, tier = free\<rparr>"
    by (simp add: ENDPOINT_PRICES_def ENDPOINT_PRICES_entries_def)
  then have "dualTokenAccepts cfg ''health'' p = Inr []"
    by (rule dualTokenAccepts_free) simp
  moreover have "dualTokenAccepts cfg k p = Inr []"
    if "ENDPOINT_PRICES k = None \<and> k \<notin> set Object_prototype_names"
    using that by (simp add: dualTokenAccepts_def ENDPOINT_PRICES_get_def)
  ultimately show ?thesis
    using inherited_none [of k] dualTokenAccepts_inherited [of k cfg p] by metis
qed

text \<open>An instance: the keys \<open>docs\<close> and \<open>toString\<close>.\<close>

theorem absent_key_is_free_witness:
  "ENDPOINT_PRICES ''docs'' = None \<and> ''docs'' \<notin> set Object_prototype_names \<and>
   dualTokenAccepts default_tokens ''docs'' (fl (4 / 1000)) = Inr [] \<and>
   dualTokenAccepts default_tokens ''docs'' (fl (4 / 1000)) =
     dualTokenAccepts default_tokens ''health'' (fl (4 / 1000)) \<and>
   ''toString'' \<in> set Object_prototype_names \<and>
   dualTokenAccepts default_tokens ''toString'' (fl (4 / 1000)) = Inl RangeError"
proof -
  have h: "ENDPOINT_PRICES ''docs'' = None" "''docs'' \<notin> set Object_prototype_names"
    "''toString'' \<in> set Object_prototype_names"
    by (simp_all add: ENDPOINT_PRICES_def ENDPOINT_PRICES_entries_def Object_prototype_names_def)
  with absent_key_is_free [of "''docs''" default_tokens "fl (4 / 1000)"]
    absent_key_is_free [of "''toString''" default_tokens "fl (4 / 1000)"]
  show ?thesis by blast
qed

text \<open>
  C6 as first stated fails: for the absent key \<open>agent-card\<close> the builder returns
  normally.
\<close>

theorem absent_key_counterexample:
  "ENDPOINT_PRICES ''agent-card'' = None \<and>
   dualTokenAccepts default_tokens ''agent-card'' (fl (3 / 10 ^ 7)) = Inr []"
  by (simp add: dualTokenAccepts_def ENDPOINT_PRICES_get_def Object_prototype_names_def
        ENDPOINT_PRICES_def ENDPOINT_PRICES_entries_def)

text \<open>Every endpoint key that \<open>buildRoutesConfig\<close> uses is in the registry.\<close>

lemma route_keys_registered:
  "list_all (\<lambda>(route, endpointKey, descr). ENDPOINT_PRICES endpointKey \<noteq> None) route_table"
  by (simp add: route_table_def ENDPOINT_PRICES_def ENDPOINT_PRICES_entries_def)

section \<open>Properties of the price feed\<close>

lemma js_gt_0_cases: "js_gt x (Fin 0) \<Longrightarrow> x = PosInf \<or> (\<exists>r. x = Fin r \<and> 0 < r)"
  by (cases x) (auto simp: js_gt_def)

lemma js_gt_0_truthy: "js_gt x (Fin 0) \<Longrightarrow> truthy x"
  by (cases x) (auto simp: js_gt_def truthy_def)

lemma fallbackPrice_positive:
  "snapshot_positive c \<Longrightarrow>
     fallbackPrice c = (case c of None \<Rightarrow> fl (3 / 10 ^ 7) | Some s \<Rightarrow> priceUsd s)"
  by (auto simp: snapshot_positive_def fallbackPrice_def js_gt_0_truthy split: option.splits)

lemma floor_price_gt: "js_gt (fl (3 / 10 ^ 7)) (Fin 0)"
  unfolding literals(5) by (simp add: js_gt_def)

lemma fallbackPrice_gt:
  "snapshot_positive c \<Longrightarrow> js_gt (fallbackPrice c) (Fin 0)"
  using floor_price_gt
  by (auto simp: fallbackPrice_positive snapshot_positive_def split: option.splits)

lemma fetchKirkPrice_keeps_positive:
  assumes "snapshot_positive c"
  shows "snapshot_positive (snd (fetchKirkPrice now feed c))"
    and "js_gt (fst (fetchKirkPrice now feed c)) (Fin 0)"
  using assms fallbackPrice_gt [OF assms]
  by (auto simp: fetchKirkPrice_def snapshot_positive_def split: option.splits feed_response.splits)

lemma foldl_positive:
  "snapshot_positive c \<Longrightarrow>
     snapshot_positive (foldl (\<lambda>c call. snd (fetchKirkPrice (fst call) (snd call) c)) c calls)"
  by (induction calls arbitrary: c) (simp_all add: fetchKirkPrice_keeps_positive)

lemma kirkPriceCache_after_positive: "snapshot_positive (kirkPriceCache_after calls)"
  unfolding kirkPriceCache_after_def by (rule foldl_positive) (simp add: snapshot_positive_def)

lemma floor_price_finite: "fl (3 / 10 ^ 7) \<noteq> PosInf"
  unfolding literals(5) by simp

lemma fallbackPrice_finite:
  "snapshot_finite c \<Longrightarrow> fallbackPrice c \<noteq> PosInf"
  using floor_price_finite
  by (auto simp: snapshot_finite_def fallbackPrice_def split: option.splits)

lemma fetchKirkPrice_keeps_finite:
  assumes "snapshot_finite c" "feed \<noteq> FeedPrice PosInf"
  shows "snapshot_finite (snd (fetchKirkPrice now feed c))"
    and "fst (fetchKirkPrice now feed c) \<noteq> PosInf"
  using assms fallbackPrice_finite [OF assms(1)]
  by (auto simp: fetchKirkPrice_def snapshot_finite_def split: option.splits feed_response.splits)

lemma foldl_finite:
  "snapshot_finite c \<Longrightarrow> \<forall>call \<in> set calls. snd call \<noteq> FeedPrice PosInf \<Longrightarrow>
     snapshot_finite (foldl (\<lambda>c call. snd (fetchKirkPrice (fst call) (snd call) c)) c calls)"
  by (induction calls arbitrary: c) (simp_all add: fetchKirkPrice_keeps_finite)

lemma kirkPriceCache_after_finite:
  "\<forall>call \<in> set calls. snd call \<noteq> FeedPrice PosInf \<Longrightarrow> snapshot_finite (kirkPriceCache_after calls)"
  unfolding kirkPriceCache_after_def by (rule foldl_finite) (simp_all add: snapshot_finite_def)

lemma fetchKirkPrice_no_price:
  assumes "snapshot_positive c" "feed = FeedFailed \<or> (\<exists>p. feed = FeedPrice p \<and> \<not> js_gt p (Fin 0))"
  shows "fetchKirkPrice now feed c = ((case c of None \<Rightarrow> fl (3 / 10 ^ 7) | Some s \<Rightarrow> priceUsd s), c)"
  using assms fallbackPrice_positive [OF assms(1)]
  by (auto simp: fetchKirkPrice_def split: option.splits feed_response.splits)

text \<open>
  C5 (amended): whatever calls of \<open>fetchKirkPrice\<close> came before, a call returns a price
  above zero, which is not \<open>NaN\<close>. When the feed fails or gives a price that is not
  above zero, the call returns the snapshot's price if there is a snapshot and
  0.0000003 if there is none, and leaves the snapshot as it is. The price is finite as
  long as the feed never answered \<open>Infinity\<close>. The function has no error result.
\<close>

theorem fetchKirkPrice_result:
  "js_gt (fst (fetchKirkPrice now feed (kirkPriceCache_after calls))) (Fin 0) \<and>
   fst (fetchKirkPrice now feed (kirkPriceCache_after calls)) \<noteq> NaN \<and>
   (feed = FeedFailed \<or> (\<exists>p. feed = FeedPrice p \<and> \<not> js_gt p (Fin 0)) \<longrightarrow>
      fetchKirkPrice now feed (kirkPriceCache_after calls) =
        ((case kirkPriceCache_after calls of
            None \<Rightarrow> fl (3 / 10 ^ 7)
          | Some s \<Rightarrow> priceUsd s), kirkPriceCache_after calls)) \<and>
   ((\<forall>call \<in> set calls. snd call \<noteq> FeedPrice PosInf) \<and> feed \<noteq> FeedPrice PosInf \<longrightarrow>
      (\<exists>x. fst (fetchKirkPrice now feed (kirkPriceCache_after calls)) = Fin x \<and> 0 < x))"
proof -
  let ?c = "kirkPriceCache_after calls"
  have pos: "js_gt (fst (fetchKirkPrice now feed ?c)) (Fin 0)"
    by (rule fetchKirkPrice_keeps_positive(2) [OF kirkPriceCache_after_positive])
  then have nan: "fst (fetchKirkPrice now feed ?c) \<noteq> NaN" by (auto simp: js_gt_def)
  have fin: "\<exists>x. fst (fetchKirkPrice now feed ?c) = Fin x \<and> 0 < x"
    if "(\<forall>call \<in> set calls. snd call \<noteq> FeedPrice PosInf) \<and> feed \<noteq> FeedPrice PosInf"
  proof -
    from that have "snapshot_finite ?c" by (simp add: kirkPriceCache_after_finite)
    with that have "fst (fetchKirkPrice now feed ?c) \<noteq> PosInf"
      by (simp add: fetchKirkPrice_keeps_finite(2))
    with js_gt_0_cases [OF pos] show ?thesis by auto
  qed
  show ?thesis
    using pos nan fin fetchKirkPrice_no_price [of "kirkPriceCache_after calls" feed now,
        OF kirkPriceCache_after_positive]
    by blast
qed

text \<open>
  An instance: a failing feed after the snapshot 0.004 has gone stale, and a zero price
  with no snapshot.
\<close>

theorem fetchKirkPrice_result_witness:
  "fetchKirkPrice 400000 FeedFailed (kirkPriceCache_after [(0, FeedPrice (fl (4 / 1000)))]) =
     (fl (4 / 1000), Some \<lparr>priceUsd = fl (4 / 1000), fetchedAt = 0\<rparr>) \<and>
   fetchKirkPrice 400000 (FeedPrice (Fin 0)) (kirkPriceCache_after []) = (fl (3 / 10 ^ 7), None)"
proof -
  have c: "kirkPriceCache_after [(0, FeedPrice (fl (4 / 1000)))] =
      Some \<lparr>priceUsd = fl (4 / 1000), fetchedAt = 0\<rparr>"
    unfolding literals(6) by (simp add: kirkPriceCache_after_def fetchKirkPrice_def js_gt_def)
  have e: "kirkPriceCache_after [] = None"
    by (simp add: kirkPriceCache_after_def)
  have z: "\<exists>p. FeedPrice (Fin 0) = FeedPrice p \<and> \<not> js_gt p (Fin 0)"
    by (simp add: js_gt_def)
  show ?thesis
    using fetchKirkPrice_result [of 400000 FeedFailed "[(0, FeedPrice (fl (4 / 1000)))]"]
      fetchKirkPrice_result [of 400000 "FeedPrice (Fin 0)" "[]"] z
    unfolding c e by simp
qed

text \<open>
  C5 as first stated fails: a feed price that parses to \<open>Infinity\<close> passes the test
  \<open>priceUsd > 0\<close>, is stored and is returned.
\<close>

theorem fetchKirkPrice_counterexample:
  "fetchKirkPrice 0 (FeedPrice PosInf) None = (PosInf, Some \<lparr>priceUsd = PosInf, fetchedAt = 0\<rparr>)"
  by (simp add: fetchKirkPrice_def js_gt_def)

section \<open>Properties of the middleware factory\<close>

lemma refresh_routes: "routes (refresh s tick) = routes s"
  by (simp add: refresh_def)

lemma foldl_refresh_routes: "routes (foldl refresh s ticks) = routes s"
  by (induction ticks arbitrary: s) (simp_all add: refresh_routes)

lemma buildRoutes_lookup:
  assumes "buildRoutes cfg p tbl = Inr rs" "distinct (map fst tbl)"
    and "(route, endpointKey, descr) \<in> set tbl"
  shows "\<exists>acc. dualTokenAccepts cfg endpointKey p = Inr acc \<and>
           map_of rs route = Some \<lparr>accepts = acc, description = descr,
                                    mimeType = ''application/json''\<rparr>"
  using assms
proof (induction tbl arbitrary: rs)
  case Nil
  then show ?case by simp
next
  case (Cons row tbl)
  obtain r k d where row: "row = (r, k, d)" by (cases row) auto
  from Cons.prems(1) row obtain acc rest
    where acc: "dualTokenAccepts cfg k p = Inr acc"
      and rest: "buildRoutes cfg p tbl = Inr rest"
      and rs: "rs = (r, \<lparr>accepts = acc, description = d, mimeType = ''application/json''\<rparr>) # rest"
    by (auto split: sum.splits)
  show ?case
  proof (cases "(route, endpointKey, descr) = row")
    case True
    with row acc rs show ?thesis by auto
  next
    case False
    with Cons.prems(3) have mem: "(route, endpointKey, descr) \<in> set tbl" by simp
    from Cons.prems(2) row have dist: "distinct (map fst tbl)" and "r \<notin> fst ` set tbl" by auto
    with mem have "route \<noteq> r" by force
    with Cons.IH [OF rest dist mem] rs show ?thesis by auto
  qed
qed

lemma buildRoutes_succeeds:
  assumes "\<And>k ep. ENDPOINT_PRICES k = Some ep \<Longrightarrow> \<exists>acc. dualTokenAccepts cfg k p = Inr acc"
    and "list_all (\<lambda>(route, endpointKey, descr). ENDPOINT_PRICES endpointKey \<noteq> None) tbl"
  shows "\<exists>rs. buildRoutes cfg p tbl = Inr rs"
  using assms(2)
proof (induction tbl)
  case Nil
  show ?case by simp
next
  case (Cons row tbl)
  obtain r k d where row: "row = (r, k, d)" by (cases row) auto
  with Cons.prems obtain ep where "ENDPOINT_PRICES k = Some ep" by auto
  from assms(1) [OF this] obtain acc where "dualTokenAccepts cfg k p = Inr acc" ..
  with Cons row show ?case by auto
qed

lemma route_table_distinct: "distinct (map fst route_table)"
  by (simp add: route_table_def)

lemma quote_created:
  assumes "createPaymentMiddleware cfg now feed cache0 = (Inr rs, cache1)"
    and "(route, endpointKey, descr) \<in> set route_table"
  shows "\<exists>acc. dualTokenAccepts cfg endpointKey (fst (fetchKirkPrice now feed cache0)) = Inr acc \<and>
           quote (foldl refresh \<lparr>kirkPriceCache = cache1, routes = rs\<rparr> ticks) route = Some acc"
proof -
  from assms(1) have "buildRoutesConfig cfg (fst (fetchKirkPrice now feed cache0)) = Inr rs"
    by (auto simp: createPaymentMiddleware_def split: prod.splits)
  then have "buildRoutes cfg (fst (fetchKirkPrice now feed cache0)) route_table = Inr rs"
    by (simp add: buildRoutesConfig_def)
  from buildRoutes_lookup [OF this route_table_distinct assms(2)]
  show ?thesis by (auto simp: quote_def foldl_refresh_routes)
qed

lemma dualTokenAccepts_succeeds:
  assumes "ENDPOINT_PRICES k = Some ep"
    and "calculateKirkAmount (usdcPrice ep) p = Fin r" "\<bar>r * 10 ^ 18\<bar> \<le> MAX_VALUE"
  shows "\<exists>acc. dualTokenAccepts cfg k p = Inr acc"
proof (cases "js_eq (usdcPrice ep) (Fin 0)")
  case True
  with assms(1) show ?thesis by (simp add: dualTokenAccepts_def get_own)
next
  case False
  from kirkToRaw_finite [OF assms(3)] assms(2) obtain kirkRaw
    where kr: "kirkToRaw (calculateKirkAmount (usdcPrice ep) p) = Inr kirkRaw" by auto
  from usdcToRaw_registry_ex [OF assms(1)] obtain usdcRaw
    where ur: "usdcToRaw (usdcPrice ep) = Inr usdcRaw" ..
  from dualTokenAccepts_paid [OF assms(1) False ur kr] show ?thesis by blast
qed

lemma accepts_at_004:
  assumes Some: "ENDPOINT_PRICES k = Some ep"
  shows "\<exists>acc. dualTokenAccepts cfg k (fl (4 / 1000)) = Inr acc"
proof -
  have small: "\<bar>18 * 10 ^ 18 :: real\<bar> \<le> MAX_VALUE" "\<bar>9 * 10 ^ 18 :: real\<bar> \<le> MAX_VALUE"
    "\<bar>2 * 10 ^ 18 :: real\<bar> \<le> MAX_VALUE" "\<bar>0 * 10 ^ 18 :: real\<bar> \<le> MAX_VALUE"
    by (simp_all add: MAX_VALUE_def)
  from registry_prices [OF Some]
  consider "usdcPrice ep = Fin 0" | "usdcPrice ep = fl (1 / 100)"
    | "usdcPrice ep = fl (5 / 100)" | "usdcPrice ep = fl (10 / 100)" by blast
  then show ?thesis
  proof cases
    case 1
    then have "calculateKirkAmount (usdcPrice ep) (fl (4 / 1000)) = Fin 0"
      by (simp only: amounts_at_004)
    from dualTokenAccepts_succeeds [OF Some this small(4)] show ?thesis .
  next
    case 2
    then have "calculateKirkAmount (usdcPrice ep) (fl (4 / 1000)) = Fin 2"
      by (simp only: amounts_at_004)
    from dualTokenAccepts_succeeds [OF Some this small(3)] show ?thesis .
  next
    case 3
    then have "calculateKirkAmount (usdcPrice ep) (fl (4 / 1000)) = Fin 9"
      by (simp only: amounts_at_004)
    from dualTokenAccepts_succeeds [OF Some this small(2)] show ?thesis .
  next
    case 4
    then have "calculateKirkAmount (usdcPrice ep) (fl (4 / 1000)) = Fin 18"
      by (simp only: amounts_at_004)
    from dualTokenAccepts_succeeds [OF Some this small(1)] show ?thesis .
  qed
qed

lemma first_price: "fetchKirkPrice 0 (FeedPrice (fl (4 / 1000))) None =
    (fl (4 / 1000), Some \<lparr>priceUsd = fl (4 / 1000), fetchedAt = 0\<rparr>)"
  unfolding literals(6) by (simp add: fetchKirkPrice_def js_gt_def)

lemma started_ok:
  "\<exists>rs. started = (Inr rs, Some \<lparr>priceUsd = fl (4 / 1000), fetchedAt = 0\<rparr>)"
proof -
  have "\<exists>rs. buildRoutes default_tokens (fl (4 / 1000)) route_table = Inr rs"
    by (rule buildRoutes_succeeds) (erule accepts_at_004, rule route_keys_registered)
  then obtain rs where "buildRoutesConfig default_tokens (fl (4 / 1000)) = Inr rs"
    unfolding buildRoutesConfig_def ..
  then show ?thesis
    by (simp only: started_def createPaymentMiddleware_def first_price Let_def prod.case) blast
qed

lemma started_server_eq:
  assumes "started = (Inr rs, c)"
  shows "started_server = \<lparr>kirkPriceCache = c, routes = rs\<rparr>"
  unfolding started_server_def assms by simp

lemma summary_at_004:
  "dualTokenAccepts default_tokens ''summary'' (fl (4 / 1000)) =
    Inr [\<lparr>scheme = exact, network = ''eip155:8453'',
           payTo = ''0x54376e042acd7cf3bea1a40aff9c33b47e7ec5de'',
           price = \<lparr>asset = ''0x833589fCD6eDb6E08f4c7C32D4f71b54bdA02913'', amount = ''10000'',
                    extra = \<lparr>name = ''USD Coin'', symbol = ''USDC'', decimals = 6\<rparr>\<rparr>\<rparr>,
         \<lparr>scheme = upto, network = ''eip155:8453'',
           payTo = ''0x54376e042acd7cf3bea1a40aff9c33b47e7ec5de'',
           price = \<lparr>asset = ''0x73b83F8553480e8A8bb56B53618d5e70C8051e37'',
                    amount = ''2000000000000000000'',
                    extra = \<lparr>name = ''Kirk'', symbol = ''KIRK'', decimals = 18\<rparr>\<rparr>\<rparr>]"
  by (simp add: eval_defs)

text \<open>
  C3 (amended): the requirement set quoted for a route is the one built from the price
  that \<open>fetchKirkPrice\<close> returned when the middleware was created, and it stays so after
  any number of refreshes. The refresh timer renews only the price snapshot.
\<close>

theorem quotes_fixed_at_creation:
  assumes "createPaymentMiddleware cfg now feed cache0 = (Inr rs, cache1)"
    and "(route, endpointKey, descr) \<in> set route_table"
  shows "\<exists>acc. dualTokenAccepts cfg endpointKey (fst (fetchKirkPrice now feed cache0)) = Inr acc \<and>
           quote (foldl refresh \<lparr>kirkPriceCache = cache1, routes = rs\<rparr> ticks) route = Some acc"
  using assms by (rule quote_created)

text \<open>An instance: the sample server after one refresh, route \<open>summary\<close>.\<close>

theorem quotes_fixed_at_creation_witness:
  "\<exists>acc. dualTokenAccepts default_tokens ''summary''
            (fst (fetchKirkPrice 0 (FeedPrice (fl (4 / 1000))) None)) = Inr acc \<and>
         quote (foldl refresh started_server [(300000, FeedPrice (fl (2 / 1000)))])
           ''GET /models/[model]/summary'' = Some acc"
proof -
  from started_ok obtain rs
    where s: "started = (Inr rs, Some \<lparr>priceUsd = fl (4 / 1000), fetchedAt = 0\<rparr>)" ..
  then have "createPaymentMiddleware default_tokens 0 (FeedPrice (fl (4 / 1000))) None
          = (Inr rs, Some \<lparr>priceUsd = fl (4 / 1000), fetchedAt = 0\<rparr>)"
    by (simp add: started_def)
  moreover have "(''GET /models/[model]/summary'', ''summary'', ''Quick model snapshot'')
      \<in> set route_table"
    by (simp add: route_table_def)
  ultimately have "\<exists>acc. dualTokenAccepts default_tokens ''summary''
            (fst (fetchKirkPrice 0 (FeedPrice (fl (4 / 1000))) None)) = Inr acc \<and>
         quote (foldl refresh
                  \<lparr>kirkPriceCache = Some \<lparr>priceUsd = fl (4 / 1000), fetchedAt = 0\<rparr>, routes = rs\<rparr>
                  [(300000, FeedPrice (fl (2 / 1000)))])
           ''GET /models/[model]/summary'' = Some acc"
    by (rule quotes_fixed_at_creation)
  then show ?thesis by (simp only: started_server_eq [OF s])
qed

text \<open>
  C3 as first stated fails: the server starts at the feed price 0.004; five minutes later
  a refresh stores the price 0.002; the quote for \<open>summary\<close> still asks for 2 KIRK, the
  amount for 0.004, where the new price gives 4 KIRK.
\<close>

theorem quotes_fixed_counterexample:
  "\<not> isl (fst started) \<and>
   map_option priceUsd
     (kirkPriceCache (refresh started_server (300000, FeedPrice (fl (2 / 1000)))))
     = Some (fl (2 / 1000)) \<and>
   map_option (map (amount \<circ> requirement.price))
     (quote (refresh started_server (300000, FeedPrice (fl (2 / 1000))))
        ''GET /models/[model]/summary'')
     = Some [''10000'', ''2000000000000000000''] \<and>
   map_sum id (map (amount \<circ> requirement.price))
     (dualTokenAccepts default_tokens ''summary'' (fl (2 / 1000)))
     = Inr [''10000'', ''4000000000000000000'']"
proof -
  from started_ok obtain rs
    where s: "started = (Inr rs, Some \<lparr>priceUsd = fl (4 / 1000), fetchedAt = 0\<rparr>)" ..
  then have cr: "createPaymentMiddleware default_tokens 0 (FeedPrice (fl (4 / 1000))) None
      = (Inr rs, Some \<lparr>priceUsd = fl (4 / 1000), fetchedAt = 0\<rparr>)"
    by (simp add: started_def)
  note srv = started_server_eq [OF s]
  have mem: "(''GET /models/[model]/summary'', ''summary'', ''Quick model snapshot'')
      \<in> set route_table"
    by (simp add: route_table_def)
  from quote_created [OF cr mem, of "[(300000, FeedPrice (fl (2 / 1000)))]"]
    first_price summary_at_004
  have q: "map_option (map (amount \<circ> requirement.price))
     (quote (refresh started_server (300000, FeedPrice (fl (2 / 1000))))
        ''GET /models/[model]/summary'')
     = Some [''10000'', ''2000000000000000000'']"
    unfolding srv by simp
  have c: "map_option priceUsd
     (kirkPriceCache (refresh started_server (300000, FeedPrice (fl (2 / 1000)))))
     = Some (fl (2 / 1000))"
    unfolding srv literals(6,7)
    by (simp add: refresh_def fetchKirkPrice_def PRICE_CACHE_TTL_def js_gt_def)
  have n: "map_sum id (map (amount \<circ> requirement.price))
     (dualTokenAccepts default_tokens ''summary'' (fl (2 / 1000)))
     = Inr [''10000'', ''4000000000000000000'']"
    by (simp add: eval_defs)
  have "\<not> isl (fst started)" unfolding s by simp
  with q c n show ?thesis by simp
qed

section \<open>Properties of the data cache\<close>

lemma cachedFetch_lookup_None_iff:
  "cachedFetch_lookup t key c = None \<longleftrightarrow>
     (c key = None \<or> (\<exists>cached. c key = Some cached \<and> expires cached \<le> t))"
  by (auto simp: cachedFetch_lookup_def split: option.splits)

text \<open>
  C8: a call of \<open>cachedFetch\<close> that finds a non-expired entry returns its value and leaves
  the cache and the world as they are, whatever the fetcher is (so the fetcher is not
  called). Otherwise the fetcher is called; if it gives a value, the value is stored
  under the key with expiry one hour after the time of storing, and returned; if it
  throws, the error goes to the caller and the cache is unchanged.
\<close>

theorem cachedFetch_semantics:
  "(\<forall>cached. c key = Some cached \<and> clock w < expires cached \<longrightarrow>
      cachedFetch key fetcher (c, w) = (Inr (data cached), c, w)) \<and>
   (c key = None \<or> (\<exists>cached. c key = Some cached \<and> expires cached \<le> clock w) \<longrightarrow>
      (\<forall>d w'. fetcher w = (Inr d, w') \<longrightarrow>
         cachedFetch key fetcher (c, w) =
           (Inr d, c(key \<mapsto> \<lparr>data = d, expires = clock w' + CACHE_TTL\<rparr>), w')) \<and>
      (\<forall>e w'. fetcher w = (Inl e, w') \<longrightarrow>
         cachedFetch key fetcher (c, w) = (Inl e, c, w')))"
proof (intro conjI allI impI)
  fix cached
  assume "c key = Some cached \<and> clock w < expires cached"
  then have "cachedFetch_lookup (clock w) key c = Some (data cached)"
    by (simp add: cachedFetch_lookup_def)
  then show "cachedFetch key fetcher (c, w) = (Inr (data cached), c, w)"
    by (simp add: cachedFetch_def)
next
  fix d w'
  assume miss: "c key = None \<or> (\<exists>cached. c key = Some cached \<and> expires cached \<le> clock w)"
    and f: "fetcher w = (Inr d, w')"
  from miss have "cachedFetch_lookup (clock w) key c = None"
    by (simp add: cachedFetch_lookup_None_iff)
  with f show "cachedFetch key fetcher (c, w) =
      (Inr d, c(key \<mapsto> \<lparr>data = d, expires = clock w' + CACHE_TTL\<rparr>), w')"
    by (simp add: cachedFetch_def cachedFetch_resume_def)
next
  fix e w'
  assume miss: "c key = None \<or> (\<exists>cached. c key = Some cached \<and> expires cached \<le> clock w)"
    and f: "fetcher w = (Inl e, w')"
  from miss have "cachedFetch_lookup (clock w) key c = None"
    by (simp add: cachedFetch_lookup_None_iff)
  with f show "cachedFetch key fetcher (c, w) = (Inl e, c, w')"
    by (simp add: cachedFetch_def cachedFetch_resume_def)
qed

text \<open>
  An instance of each case: a live entry (expiry 5000, clock 1000), an expired entry
  (clock 5000) with a fetcher that takes 250 ms, and an empty cache with a fetcher
  that throws.
\<close>

theorem cachedFetch_semantics_witness:
  "cachedFetch ''model:usa-model1'' (\<lambda>w. (Inr (7::nat), w\<lparr>clock := clock w + 250\<rparr>))
      ([''model:usa-model1'' \<mapsto> \<lparr>data = 1, expires = 5000\<rparr>], \<lparr>clock = 1000\<rparr>)
     = (Inr 1, [''model:usa-model1'' \<mapsto> \<lparr>data = 1, expires = 5000\<rparr>], \<lparr>clock = 1000\<rparr>)
   \<and> cachedFetch ''model:usa-model1'' (\<lambda>w. (Inr (7::nat), w\<lparr>clock := clock w + 250\<rparr>))
      ([''model:usa-model1'' \<mapsto> \<lparr>data = 1, expires = 5000\<rparr>], \<lparr>clock = 5000\<rparr>)
     = (Inr 7, [''model:usa-model1'' \<mapsto> \<lparr>data = 7, expires = 3605250\<rparr>], \<lparr>clock = 5250\<rparr>)
   \<and> cachedFetch ''model:usa-model1''
      (\<lambda>w. (Inl (KsvcApiError 503) :: error + nat, w\<lparr>clock := clock w + 250\<rparr>))
      (Map.empty, \<lparr>clock = 5000\<rparr>)
     = (Inl (KsvcApiError 503), Map.empty, \<lparr>clock = 5250\<rparr>)"
  using
    cachedFetch_semantics [of "[''model:usa-model1'' \<mapsto> \<lparr>data = 1, expires = 5000\<rparr>]"
      "''model:usa-model1''" "\<lparr>clock = 1000\<rparr>"
      "\<lambda>w. (Inr (7::nat), w\<lparr>clock := clock w + 250\<rparr>)"]
    cachedFetch_semantics [of "[''model:usa-model1'' \<mapsto> \<lparr>data = 1, expires = 5000\<rparr>]"
      "''model:usa-model1''" "\<lparr>clock = 5000\<rparr>"
      "\<lambda>w. (Inr (7::nat), w\<lparr>clock := clock w + 250\<rparr>)"]
    cachedFetch_semantics [of "Map.empty :: nat cache"
      "''model:usa-model1''" "\<lparr>clock = 5000\<rparr>"
      "\<lambda>w. (Inl (KsvcApiError 503) :: error + nat, w\<lparr>clock := clock w + 250\<rparr>)"]
  by (simp add: CACHE_TTL_def)

section \<open>Callers of the data cache on the event loop\<close>

lemma run_append: "run key s (xs @ ys) = run key (run key s xs) ys"
  by (simp add: run_def)

lemma run_calls:
  "\<forall>t \<in> set ts. cachedFetch_lookup t key (store s) = None \<Longrightarrow>
     run key s (map Call ts) =
       s\<lparr>fetcherCalls := fetcherCalls s + length ts, waiting := waiting s + length ts\<rparr>"
proof (induction ts arbitrary: s)
  case Nil
  show ?case by (simp add: run_def)
next
  case (Cons t ts)
  let ?s = "s\<lparr>fetcherCalls := fetcherCalls s + 1, waiting := waiting s + 1\<rparr>"
  from Cons.prems have st: "step key s (Call t) = ?s" by simp
  from Cons.prems have "\<forall>t \<in> set ts. cachedFetch_lookup t key (store ?s) = None" by simp
  from Cons.IH [OF this] st show ?case by (simp add: run_def)
qed

lemma cachedFetch_resume_result: "fst (cachedFetch_resume t key x c) = x"
  by (cases x) (simp_all add: cachedFetch_resume_def)

lemma run_settles:
  "length outs \<le> waiting s \<Longrightarrow>
     fetcherCalls (run key s (map (\<lambda>(t, x). Settle t x) outs)) = fetcherCalls s \<and>
     waiting (run key s (map (\<lambda>(t, x). Settle t x) outs)) = waiting s - length outs \<and>
     returned (run key s (map (\<lambda>(t, x). Settle t x) outs)) = returned s @ map snd outs"
proof (induction outs arbitrary: s)
  case Nil
  show ?case by (simp add: run_def)
next
  case (Cons out outs)
  obtain t x where out: "out = (t, x)" by (cases out) auto
  let ?s = "step key s (Settle t x)"
  from Cons.prems have w: "waiting s \<noteq> 0" by auto
  then have s': "fetcherCalls ?s = fetcherCalls s" "waiting ?s = waiting s - 1"
    "returned ?s = returned s @ [x]"
    using cachedFetch_resume_result [of t key x "store s"]
    by (auto split: prod.splits)
  with Cons.prems have "length outs \<le> waiting ?s" by simp
  from Cons.IH [OF this] s' out show ?case by (simp add: run_def)
qed

lemma concurrent_run:
  assumes "\<forall>t \<in> set ts. cachedFetch_lookup t key (store s) = None"
    and "waiting s = 0" "length outs = length ts"
  shows "fetcherCalls (run key s (map Call ts @ map (\<lambda>(t, x). Settle t x) outs))
           = fetcherCalls s + length ts"
    and "returned (run key s (map Call ts @ map (\<lambda>(t, x). Settle t x) outs))
           = returned s @ map snd outs"
proof -
  let ?s = "run key s (map Call ts)"
  from run_calls [OF assms(1)]
  have s': "fetcherCalls ?s = fetcherCalls s + length ts" "waiting ?s = waiting s + length ts"
    "returned ?s = returned s" by simp_all
  with assms have "length outs \<le> waiting ?s" by simp
  from run_settles [OF this, of key] s'
  show "fetcherCalls (run key s (map Call ts @ map (\<lambda>(t, x). Settle t x) outs))
           = fetcherCalls s + length ts"
    and "returned (run key s (map Call ts @ map (\<lambda>(t, x). Settle t x) outs))
           = returned s @ map snd outs"
    by (simp_all add: run_append)
qed

text \<open>
  C7 (amended): when \<open>N\<close> callers enter \<open>cachedFetch\<close> for a key at times at which the
  cache has no live entry for it, and none of their fetches has settled yet, the fetcher
  is called \<open>N\<close> times, once by each caller, and each caller gets what its own fetch
  settled to.
\<close>

theorem no_single_flight:
  "(\<forall>t \<in> set ts. cachedFetch_lookup t key (store s) = None) \<Longrightarrow> waiting s = 0 \<Longrightarrow>
   length outs = length ts \<Longrightarrow>
     fetcherCalls (run key s (map Call ts @ map (\<lambda>(t, x). Settle t x) outs))
       = fetcherCalls s + length ts \<and>
     returned (run key s (map Call ts @ map (\<lambda>(t, x). Settle t x) outs))
       = returned s @ map snd outs"
  using concurrent_run [of ts key s outs] by simp

text \<open>An instance: three callers, the third one's fetch fails.\<close>

theorem no_single_flight_witness:
  "fetcherCalls (run ''model:usa-model1''
      \<lparr>store = Map.empty, fetcherCalls = 0, waiting = 0, returned = []\<rparr>
      (map Call [0, 1, 2] @
       map (\<lambda>(t, x). Settle t x) [(200, Inr (1::nat)), (210, Inr 2), (220, Inl (KsvcApiError 502))]))
     = 3 \<and>
   returned (run ''model:usa-model1''
      \<lparr>store = Map.empty, fetcherCalls = 0, waiting = 0, returned = []\<rparr>
      (map Call [0, 1, 2] @
       map (\<lambda>(t, x). Settle t x) [(200, Inr (1::nat)), (210, Inr 2), (220, Inl (KsvcApiError 502))]))
     = [Inr 1, Inr 2, Inl (KsvcApiError 502)]"
  using no_single_flight [of "[0, 1, 2]" "''model:usa-model1''"
      "\<lparr>store = Map.empty, fetcherCalls = 0, waiting = 0, returned = []\<rparr>"
      "[(200, Inr (1::nat)), (210, Inr 2), (220, Inl (KsvcApiError 502))]"]
  by (simp add: cachedFetch_lookup_def)

text \<open>
  C7 as first stated fails: two callers on an empty cache call the fetcher twice and get
  different results.
\<close>

theorem no_single_flight_counterexample:
  "run ''model:usa-model1''
      \<lparr>store = Map.empty, fetcherCalls = 0, waiting = 0, returned = []\<rparr>
      [Call 0, Call 1, Settle 200 (Inr (1::nat)), Settle 210 (Inr 2)]
   = \<lparr>store = [''model:usa-model1'' \<mapsto> \<lparr>data = 2, expires = 3600210\<rparr>],
      fetcherCalls = 2, waiting = 0, returned = [Inr 1, Inr 2]\<rparr>"
  by (simp add: run_def cachedFetch_lookup_def cachedFetch_resume_def CACHE_TTL_def)

section \<open>Properties of the recent-trades view\<close>

text \<open>
  C10: when the model's fetched data holds \<open>K\<close> filled orders, \<open>getRecentTrades\<close> returns
  the first \<open>min K 20\<close> of them in their upstream order, and its \<open>count\<close> is \<open>min 20 K\<close>.
\<close>

theorem getRecentTrades_first_20:
  "fetchModelData base fetch m st = (Inr d, c', w') \<Longrightarrow> filledOrders d = Some os \<Longrightarrow>
   \<exists>r. getRecentTrades base fetch m st = (Inr r, c', w') \<and>
       recentTrades r = take (min (length os) 20) os \<and>
       count r = min 20 (length os) \<and>
       length (recentTrades r) = count r"
  by (simp add: getRecentTrades_def min_def)

text \<open>An instance: 21 filled orders upstream, 20 returned.\<close>

theorem getRecentTrades_first_20_witness:
  "\<exists>r. getRecentTrades ''https://ksvc.example''
         (\<lambda>url w. (Inr \<lparr>ok = True, status = 200,
            json = Inr \<lparr>filledOrders = Some (replicate 21 an_order),
                        last_date = Some ''2026-01-02''\<rparr>\<rparr>, w))
         ''usa-model1'' (Map.empty, \<lparr>clock = 0\<rparr>) =
        (Inr r,
         [''model:usa-model1'' \<mapsto>
            \<lparr>data = \<lparr>filledOrders = Some (replicate 21 an_order),
                      last_date = Some ''2026-01-02''\<rparr>,
             expires = 3600000\<rparr>],
         \<lparr>clock = 0\<rparr>) \<and>
       recentTrades r = replicate 20 an_order \<and> count r = 20 \<and>
       length (recentTrades r) = count r"
  using getRecentTrades_first_20 [of "''https://ksvc.example''"
         "\<lambda>url w. (Inr \<lparr>ok = True, status = 200,
            json = Inr \<lparr>filledOrders = Some (replicate 21 an_order),
                        last_date = Some ''2026-01-02''\<rparr>\<rparr>, w)"
         "''usa-model1''" "(Map.empty, \<lparr>clock = 0\<rparr>)"
         "\<lparr>filledOrders = Some (replicate 21 an_order), last_date = Some ''2026-01-02''\<rparr>"
         "[''model:usa-model1'' \<mapsto>
            \<lparr>data = \<lparr>filledOrders = Some (replicate 21 an_order),
                      last_date = Some ''2026-01-02''\<rparr>,
             expires = 3600000\<rparr>]"
         "\<lparr>clock = 0\<rparr>" "replicate 21 an_order"]
  by (simp add: fetchModelData_def cachedFetch_def cachedFetch_lookup_def
        cachedFetch_resume_def CACHE_TTL_def)

end
